theory Spec2Isabelle
  imports Main "HOL-Library.AList"
begin

section \<open>Strings, characters and the regular expressions of the form\<close>

text \<open>
  A JavaScript string is modelled as a \<open>string\<close>: a list of code units, here restricted to
  the code units 0..255. \<open>length\<close> is the string's \<open>.length\<close>.

  \<open>isWhiteSpace\<close> is the class \<open>\s\<close> of a regular expression and the set of characters that
  \<open>String.prototype.trim\<close> strips (white space and line terminators), within 0..255:
  TAB, LF, VT, FF, CR, SPACE and NBSP. \<open>isLineTerminator\<close> is the set that \<open>.\<close> does not
  match: LF and CR.
\<close>

definition isWhiteSpace :: "char \<Rightarrow> bool" where
  "isWhiteSpace c = (of_char c \<in> {9, 10, 11, 12, 13, 32, 160 :: nat})"

definition isLineTerminator :: "char \<Rightarrow> bool" where
  "isLineTerminator c = (of_char c \<in> {10, 13 :: nat})"

definition isLower :: "char \<Rightarrow> bool" where
  "isLower c = (97 \<le> (of_char c :: nat) \<and> (of_char c :: nat) \<le> 122)"

definition isUpper :: "char \<Rightarrow> bool" where
  "isUpper c = (65 \<le> (of_char c :: nat) \<and> (of_char c :: nat) \<le> 90)"

definition isDigit :: "char \<Rightarrow> bool" where
  "isDigit c = (48 \<le> (of_char c :: nat) \<and> (of_char c :: nat) \<le> 57)"

definition trim :: "string \<Rightarrow> string" where
  "trim s = rev (dropWhile isWhiteSpace (rev (dropWhile isWhiteSpace s)))"

text \<open>
  The regular expressions of the source use character classes, \<open>+\<close> and \<open>*\<close> on a class,
  sequence and the lookahead \<open>(?=r)\<close>. \<open>rem r s\<close> lists, in the order a backtracking matcher
  tries them, the rests of \<open>s\<close> that remain after \<open>r\<close> has matched a prefix of \<open>s\<close>.
\<close>

datatype regex =
    Cls "char \<Rightarrow> bool"
  | Star "char \<Rightarrow> bool"
  | Plus "char \<Rightarrow> bool"
  | Seq regex regex
  | Ahead regex

fun star_rem :: "(char \<Rightarrow> bool) \<Rightarrow> string \<Rightarrow> string list" where
  "star_rem p [] = [[]]"
| "star_rem p (c # cs) = (if p c then star_rem p cs @ [c # cs] else [c # cs])"

fun rem :: "regex \<Rightarrow> string \<Rightarrow> string list" where
  "rem (Cls p) s = (case s of [] \<Rightarrow> [] | c # cs \<Rightarrow> if p c then [cs] else [])"
| "rem (Star p) s = star_rem p s"
| "rem (Plus p) s = (case s of [] \<Rightarrow> [] | c # cs \<Rightarrow> if p c then star_rem p cs else [])"
| "rem (Seq a b) s = concat (map (rem b) (rem a s))"
| "rem (Ahead a) s = (if rem a s = [] then [] else [s])"

text \<open>\<open>/^r$/.test(s)\<close>: the whole of \<open>s\<close> matches \<open>r\<close>.\<close>

definition test_anchored :: "regex \<Rightarrow> string \<Rightarrow> bool" where
  "test_anchored r s = ([] \<in> set (rem r s))"

text \<open>\<open>/r/.test(s)\<close>: \<open>r\<close> matches at some index of \<open>s\<close>, from 0 to the length of \<open>s\<close>.\<close>

fun test :: "regex \<Rightarrow> string \<Rightarrow> bool" where
  "test r [] = (rem r [] \<noteq> [])"
| "test r (c # cs) = (rem r (c # cs) \<noteq> [] \<or> test r cs)"

section \<open>The signup form: data\<close>

text \<open>
  A \<open>Date\<close> object is used by this program through \<open>getFullYear()\<close> and \<open>toISOString()\<close>
  only, so a valid date is modelled by these two observations. On an invalid date
  \<open>getFullYear()\<close> is NaN and \<open>toISOString()\<close> throws a RangeError.
\<close>

datatype Date = ValidDate int string | InvalidDate

datatype error = RangeError | TypeError | SyntaxError | StorageError | FileSystemError

fun getFullYear :: "Date \<Rightarrow> int option" where
  "getFullYear (ValidDate y s) = Some y"
| "getFullYear InvalidDate = None"

fun toISOString :: "Date \<Rightarrow> error + string" where
  "toISOString (ValidDate y s) = Inr s"
| "toISOString InvalidDate = Inl RangeError"

record FormData =
  fullName :: string
  email :: string
  password :: string
  confirmPassword :: string
  bio :: string
  country :: string
  gender :: string
  acceptTerms :: bool
  hobbies :: "string list"
  dateOfBirth :: "Date option"

text \<open>
  \<open>FormErrors\<close> is an object with string keys and string values: an association list in
  insertion order, whose keys are distinct. \<open>e[k] = v\<close> and \<open>{...e, [k]: v}\<close> are
  \<open>AList.update k v e\<close>, \<open>e[k]\<close> is \<open>map_of e k\<close> (\<open>None\<close> for \<open>undefined\<close>) and
  \<open>Object.keys(e).length\<close> is \<open>length e\<close>.
\<close>

type_synonym FormErrors = "(string \<times> string) list"

datatype toast_type = Success | Error | Info

record toast =
  visible :: bool
  message :: string
  type :: toast_type

record SignupForm =
  formData :: FormData
  errors :: FormErrors
  toast :: toast

definition initialFormData :: FormData where
  "initialFormData = \<lparr>fullName = [], email = [], password = [], confirmPassword = [],
     bio = [], country = [], gender = [], acceptTerms = False, hobbies = [],
     dateOfBirth = None\<rparr>"

definition initialSignupForm :: SignupForm where
  "initialSignupForm = \<lparr>formData = initialFormData, errors = [],
     toast = \<lparr>visible = False, message = [], type = Success\<rparr>\<rparr>"

section \<open>The signup form: validation\<close>

text \<open>\<open>/^[^\s@]+@[^\s@]+\.[^\s@]+$/\<close>\<close>

definition notSpaceAt :: "char \<Rightarrow> bool" where
  "notSpaceAt c = (\<not> isWhiteSpace c \<and> c \<noteq> CHR ''@'')"

definition emailRegex :: regex where
  "emailRegex =
     Seq (Plus notSpaceAt) (Seq (Cls (\<lambda>c. c = CHR ''@''))
       (Seq (Plus notSpaceAt) (Seq (Cls (\<lambda>c. c = CHR ''.'')) (Plus notSpaceAt))))"

definition validateEmail :: "string \<Rightarrow> bool" where
  "validateEmail e = test_anchored emailRegex e"

text \<open>\<open>/(?=.*[a-z])(?=.*[A-Z])(?=.*\d)/\<close>\<close>

definition notLineTerminator :: "char \<Rightarrow> bool" where
  "notLineTerminator c = (\<not> isLineTerminator c)"

definition passwordRegex :: regex where
  "passwordRegex =
     Seq (Ahead (Seq (Star notLineTerminator) (Cls isLower)))
       (Seq (Ahead (Seq (Star notLineTerminator) (Cls isUpper)))
         (Ahead (Seq (Star notLineTerminator) (Cls isDigit))))"

text \<open>
  Each block of \<open>validateForm\<close> is a function on the object \<open>newErrors\<close> under
  construction. \<open>currentYear\<close> is \<open>new Date().getFullYear()\<close>, read from the clock.
\<close>

definition fullName_rule :: "FormData \<Rightarrow> FormErrors \<Rightarrow> FormErrors" where
  "fullName_rule fd e =
     (if trim (fullName fd) = [] then AList.update ''fullName'' ''Full name is required'' e
      else if length (trim (fullName fd)) < 2
        then AList.update ''fullName'' ''Full name must be at least 2 characters'' e
      else e)"

definition email_rule :: "FormData \<Rightarrow> FormErrors \<Rightarrow> FormErrors" where
  "email_rule fd e =
     (if trim (email fd) = [] then AList.update ''email'' ''Email is required'' e
      else if \<not> validateEmail (email fd)
        then AList.update ''email'' ''Please enter a valid email address'' e
      else e)"

definition password_rule :: "FormData \<Rightarrow> FormErrors \<Rightarrow> FormErrors" where
  "password_rule fd e =
     (if password fd = [] then AList.update ''password'' ''Password is required'' e
      else if length (password fd) < 8
        then AList.update ''password'' ''Password must be at least 8 characters'' e
      else if \<not> test passwordRegex (password fd)
        then AList.update ''password''
          ''Password must contain at least one uppercase letter, one lowercase letter, and one number'' e
      else e)"

definition confirmPassword_rule :: "FormData \<Rightarrow> FormErrors \<Rightarrow> FormErrors" where
  "confirmPassword_rule fd e =
     (if confirmPassword fd = []
        then AList.update ''confirmPassword'' ''Please confirm your password'' e
      else if password fd \<noteq> confirmPassword fd
        then AList.update ''confirmPassword'' ''Passwords do not match'' e
      else e)"

definition bio_rule :: "FormData \<Rightarrow> FormErrors \<Rightarrow> FormErrors" where
  "bio_rule fd e =
     (if trim (bio fd) = [] then AList.update ''bio'' ''Bio is required'' e
      else if length (trim (bio fd)) < 10
        then AList.update ''bio'' ''Bio must be at least 10 characters'' e
      else e)"

definition country_rule :: "FormData \<Rightarrow> FormErrors \<Rightarrow> FormErrors" where
  "country_rule fd e =
     (if country fd = [] then AList.update ''country'' ''Please select a country'' e else e)"

definition gender_rule :: "FormData \<Rightarrow> FormErrors \<Rightarrow> FormErrors" where
  "gender_rule fd e =
     (if gender fd = [] then AList.update ''gender'' ''Please select a gender'' e else e)"

definition acceptTerms_rule :: "FormData \<Rightarrow> FormErrors \<Rightarrow> FormErrors" where
  "acceptTerms_rule fd e =
     (if \<not> acceptTerms fd
        then AList.update ''acceptTerms'' ''You must accept the terms and conditions'' e
      else e)"

text \<open>With an invalid date the age is NaN, and \<open>NaN < 13\<close> is false.\<close>

definition dateOfBirth_rule :: "int \<Rightarrow> FormData \<Rightarrow> FormErrors \<Rightarrow> FormErrors" where
  "dateOfBirth_rule currentYear fd e =
     (case dateOfBirth fd of
        None \<Rightarrow> AList.update ''dateOfBirth'' ''Date of birth is required'' e
      | Some d \<Rightarrow>
          (case getFullYear d of
             None \<Rightarrow> e
           | Some birthYear \<Rightarrow>
               if currentYear - birthYear < 13
                 then AList.update ''dateOfBirth'' ''You must be at least 13 years old'' e
               else e))"

definition newErrors :: "int \<Rightarrow> FormData \<Rightarrow> FormErrors" where
  "newErrors currentYear fd =
     dateOfBirth_rule currentYear fd
       (acceptTerms_rule fd
         (gender_rule fd
           (country_rule fd
             (bio_rule fd
               (confirmPassword_rule fd
                 (password_rule fd
                   (email_rule fd
                     (fullName_rule fd []))))))))"

definition validateForm :: "int \<Rightarrow> SignupForm \<Rightarrow> bool \<times> SignupForm" where
  "validateForm currentYear st =
     (let e = newErrors currentYear (formData st)
      in (length e = 0, st\<lparr>errors := e\<rparr>))"

section \<open>The signup form: editing\<close>

text \<open>
  \<open>handleInputChange(name, value)\<close> receives the values the inputs of the form produce:
  a string, a boolean, a list of strings or a date. \<open>assign name value prev\<close> is
  \<open>{...prev, [name]: value}\<close> on a \<open>FormData\<close>; it is \<open>None\<close> where the object that
  results is not a \<open>FormData\<close> (a property the interface does not declare, or a value
  that is not of the declared type of the property).
\<close>

datatype field_value = VString string | VBool bool | VStrings "string list" | VDate Date

fun assign :: "string \<Rightarrow> field_value \<Rightarrow> FormData \<Rightarrow> FormData option" where
  "assign name (VString s) prev =
     (if name = ''fullName'' then Some (prev\<lparr>fullName := s\<rparr>)
      else if name = ''email'' then Some (prev\<lparr>email := s\<rparr>)
      else if name = ''password'' then Some (prev\<lparr>password := s\<rparr>)
      else if name = ''confirmPassword'' then Some (prev\<lparr>confirmPassword := s\<rparr>)
      else if name = ''bio'' then Some (prev\<lparr>bio := s\<rparr>)
      else if name = ''country'' then Some (prev\<lparr>country := s\<rparr>)
      else if name = ''gender'' then Some (prev\<lparr>gender := s\<rparr>)
      else None)"
| "assign name (VBool b) prev =
     (if name = ''acceptTerms'' then Some (prev\<lparr>acceptTerms := b\<rparr>) else None)"
| "assign name (VStrings xs) prev =
     (if name = ''hobbies'' then Some (prev\<lparr>hobbies := xs\<rparr>) else None)"
| "assign name (VDate d) prev =
     (if name = ''dateOfBirth'' then Some (prev\<lparr>dateOfBirth := Some d\<rparr>) else None)"

text \<open>\<open>errors[name]\<close> as a condition: true for a non-empty string.\<close>

definition truthy :: "string option \<Rightarrow> bool" where
  "truthy v = (case v of None \<Rightarrow> False | Some s \<Rightarrow> s \<noteq> [])"

definition handleInputChange :: "string \<Rightarrow> field_value \<Rightarrow> SignupForm \<Rightarrow> SignupForm option" where
  "handleInputChange name v st =
     (case assign name v (formData st) of
        None \<Rightarrow> None
      | Some fd \<Rightarrow>
          Some (st\<lparr>formData := fd,
                  errors := (if truthy (map_of (errors st) name)
                             then AList.update name [] (errors st)
                             else errors st)\<rparr>))"

definition showToast :: "string \<Rightarrow> toast_type \<Rightarrow> SignupForm \<Rightarrow> SignupForm" where
  "showToast m t st = st\<lparr>toast := \<lparr>visible = True, message = m, type = t\<rparr>\<rparr>"

section \<open>JSON values and the key-value store\<close>

text \<open>
  The values that \<open>JSON.parse\<close> returns and \<open>JSON.stringify\<close> prints. A finite number
  is given by the text that \<open>JSON.stringify\<close> prints for it (plain decimal, or exponent form
  from \<open>1e21\<close> on), so that no arithmetic on doubles is modelled; no record of this program
  has a numeric field.
\<close>

datatype json =
    JNull
  | JBool bool
  | JNum string
  | JString string
  | JArray "json list"
  | JObject "(string \<times> json) list"

definition hexDigit :: "nat \<Rightarrow> char" where
  "hexDigit n = ''0123456789abcdef'' ! (n mod 16)"

definition escapeChar :: "char \<Rightarrow> string" where
  "escapeChar c =
     (if c = CHR 0x22 then [CHR 0x5C, CHR 0x22]
      else if c = CHR 0x5C then [CHR 0x5C, CHR 0x5C]
      else if c = CHR 0x08 then [CHR 0x5C, CHR ''b'']
      else if c = CHR 0x0C then [CHR 0x5C, CHR ''f'']
      else if c = CHR 0x0A then [CHR 0x5C, CHR ''n'']
      else if c = CHR 0x0D then [CHR 0x5C, CHR ''r'']
      else if c = CHR 0x09 then [CHR 0x5C, CHR ''t'']
      else if (of_char c :: nat) < 32
        then [CHR 0x5C, CHR ''u'', CHR ''0'', CHR ''0'',
              hexDigit (of_char c div 16), hexDigit (of_char c)]
      else [c])"

definition quoteString :: "string \<Rightarrow> string" where
  "quoteString s = [CHR 0x22] @ concat (map escapeChar s) @ [CHR 0x22]"

fun joinWith :: "string \<Rightarrow> string list \<Rightarrow> string" where
  "joinWith sep [] = []"
| "joinWith sep [x] = x"
| "joinWith sep (x # y # ys) = x @ sep @ joinWith sep (y # ys)"

fun JSON_stringify :: "json \<Rightarrow> string" where
  "JSON_stringify JNull = ''null''"
| "JSON_stringify (JBool b) = (if b then ''true'' else ''false'')"
| "JSON_stringify (JNum printed) = printed"
| "JSON_stringify (JString s) = quoteString s"
| "JSON_stringify (JArray xs) = ''['' @ joinWith '','' (map JSON_stringify xs) @ '']''"
| "JSON_stringify (JObject kvs) =
     ''{'' @ joinWith '','' (map (\<lambda>(k, v). quoteString k @ '':'' @ JSON_stringify v) kvs) @ ''}''"

text \<open>
  \<open>[...x]\<close>: the elements of an array, the characters of a string, and a TypeError on a
  value that is not iterable.
\<close>

fun spread :: "json \<Rightarrow> error + json list" where
  "spread (JArray xs) = Inr xs"
| "spread (JString s) = Inr (map (\<lambda>c. JString [c]) s)"
| "spread v = Inl TypeError"

text \<open>
  The platform is a parameter: what \<open>JSON.parse\<close> returns (\<open>None\<close> where it throws a
  SyntaxError) and which calls of \<open>AsyncStorage\<close> are rejected. A rejected call leaves
  the store as it was.
\<close>

record platform =
  JSON_parse :: "string \<Rightarrow> json option"
  getItem_rejects :: "string \<Rightarrow> bool"
  setItem_rejects :: "string \<Rightarrow> string \<Rightarrow> bool"
  removeItem_rejects :: "string \<Rightarrow> bool"

type_synonym storage = "string \<rightharpoonup> string"

definition getItem :: "platform \<Rightarrow> string \<Rightarrow> storage \<Rightarrow> error + string option" where
  "getItem p k st = (if getItem_rejects p k then Inl StorageError else Inr (st k))"

definition setItem :: "platform \<Rightarrow> string \<Rightarrow> string \<Rightarrow> storage \<Rightarrow> (error + unit) \<times> storage" where
  "setItem p k v st =
     (if setItem_rejects p k v then (Inl StorageError, st) else (Inr (), st(k \<mapsto> v)))"

definition removeItem :: "platform \<Rightarrow> string \<Rightarrow> storage \<Rightarrow> (error + unit) \<times> storage" where
  "removeItem p k st =
     (if removeItem_rejects p k then (Inl StorageError, st) else (Inr (), st(k := None)))"

text \<open>\<open>jsonData ? JSON.parse(jsonData) : fallback\<close>: \<open>null\<close> and the empty string are falsy.\<close>

definition parseOr :: "platform \<Rightarrow> json \<Rightarrow> string option \<Rightarrow> error + json" where
  "parseOr p fallback jsonData =
     (case jsonData of
        None \<Rightarrow> Inr fallback
      | Some s \<Rightarrow>
          if s = [] then Inr fallback
          else (case JSON_parse p s of None \<Rightarrow> Inl SyntaxError | Some v \<Rightarrow> Inr v))"

section \<open>StorageManager\<close>

definition FORM_DATA_KEY :: string where
  "FORM_DATA_KEY = ''signupFormData''"

definition SUBMITTED_FORMS_KEY :: string where
  "SUBMITTED_FORMS_KEY = ''submittedForms''"

text \<open>The body of the \<open>try\<close> block of \<open>getFormData\<close>, then the function with its \<open>catch\<close>.\<close>

definition getFormData_try :: "platform \<Rightarrow> storage \<Rightarrow> error + json" where
  "getFormData_try p st =
     (case getItem p FORM_DATA_KEY st of
        Inl e \<Rightarrow> Inl e
      | Inr jsonData \<Rightarrow> parseOr p JNull jsonData)"

definition getFormData :: "platform \<Rightarrow> storage \<Rightarrow> error + json" where
  "getFormData p st =
     (case getFormData_try p st of Inl e \<Rightarrow> Inr JNull | Inr v \<Rightarrow> Inr v)"

definition getSubmittedForms_try :: "platform \<Rightarrow> storage \<Rightarrow> error + json" where
  "getSubmittedForms_try p st =
     (case getItem p SUBMITTED_FORMS_KEY st of
        Inl e \<Rightarrow> Inl e
      | Inr jsonData \<Rightarrow> parseOr p (JArray []) jsonData)"

definition getSubmittedForms :: "platform \<Rightarrow> storage \<Rightarrow> error + json" where
  "getSubmittedForms p st =
     (case getSubmittedForms_try p st of Inl e \<Rightarrow> Inr (JArray []) | Inr v \<Rightarrow> Inr v)"

definition clearFormData :: "platform \<Rightarrow> storage \<Rightarrow> (error + unit) \<times> storage" where
  "clearFormData p st = removeItem p FORM_DATA_KEY st"

text \<open>
  \<open>saveCompletedRegistration(data)\<close>: every error is logged and thrown again. \<open>data\<close> is
  the object the caller passes, as a JSON value. \<open>appendSubmission\<close> is the first part of
  its \<open>try\<close> block: read the list, append \<open>data\<close>, write the list.
\<close>

definition appendSubmission :: "platform \<Rightarrow> json \<Rightarrow> storage \<Rightarrow> (error + unit) \<times> storage" where
  "appendSubmission p data st =
     (case getSubmittedForms p st of
        Inl e \<Rightarrow> (Inl e, st)
      | Inr existingForms \<Rightarrow>
          (case spread existingForms of
             Inl e \<Rightarrow> (Inl e, st)
           | Inr xs \<Rightarrow>
               setItem p SUBMITTED_FORMS_KEY (JSON_stringify (JArray (xs @ [data]))) st))"

definition saveCompletedRegistration :: "platform \<Rightarrow> json \<Rightarrow> storage \<Rightarrow> (error + unit) \<times> storage" where
  "saveCompletedRegistration p data st =
     (case appendSubmission p data st of
        (Inl e, st1) \<Rightarrow> (Inl e, st1)
      | (Inr u, st1) \<Rightarrow> clearFormData p st1)"

section \<open>The signup form: submission\<close>

text \<open>The properties of a \<open>FormData\<close> object before \<open>dateOfBirth\<close>, in the order of the object.\<close>

definition FormData_fields :: "FormData \<Rightarrow> (string \<times> json) list" where
  "FormData_fields fd =
     [(''fullName'', JString (fullName fd)),
      (''email'', JString (email fd)),
      (''password'', JString (password fd)),
      (''confirmPassword'', JString (confirmPassword fd)),
      (''bio'', JString (bio fd)),
      (''country'', JString (country fd)),
      (''gender'', JString (gender fd)),
      (''acceptTerms'', JBool (acceptTerms fd)),
      (''hobbies'', JArray (map JString (hobbies fd)))]"

text \<open>
  \<open>storageData\<close> of \<open>saveFormDataToStorage\<close>:
  \<open>{...data, dateOfBirth: data.dateOfBirth ? data.dateOfBirth.toISOString() : null}\<close>.
\<close>

definition storageData :: "FormData \<Rightarrow> error + json" where
  "storageData data =
     (case dateOfBirth data of
        None \<Rightarrow> Inr (JObject (FormData_fields data @ [(''dateOfBirth'', JNull)]))
      | Some d \<Rightarrow>
          (case toISOString d of
             Inl e \<Rightarrow> Inl e
           | Inr s \<Rightarrow> Inr (JObject (FormData_fields data @ [(''dateOfBirth'', JString s)]))))"

text \<open>\<open>saveFormDataToStorage\<close> catches every error and logs it: the store stays as it was.\<close>

definition saveFormDataToStorage :: "platform \<Rightarrow> FormData \<Rightarrow> storage \<Rightarrow> storage" where
  "saveFormDataToStorage p data st =
     (case storageData data of
        Inl e \<Rightarrow> st
      | Inr obj \<Rightarrow>
          (case setItem p ''signupFormData'' (JSON_stringify obj) st of
             (Inl e, st1) \<Rightarrow> st1
           | (Inr u, st1) \<Rightarrow> st1))"

text \<open>
  \<open>formattedData\<close> of \<open>handleSubmit\<close>:
  \<open>{...formData, dateOfBirth: formData.dateOfBirth?.toISOString().split('T')[0],
     submittedAt: new Date().toISOString()}\<close>.
  \<open>s.split('T')[0]\<close> is the text of \<open>s\<close> before its first \<open>T\<close>. Without a date of birth the
  property is \<open>undefined\<close>, which \<open>JSON.stringify\<close> leaves out.
\<close>

definition formattedData :: "FormData \<Rightarrow> string \<Rightarrow> error + json" where
  "formattedData fd nowISO =
     (case dateOfBirth fd of
        None \<Rightarrow> Inr (JObject (FormData_fields fd @ [(''submittedAt'', JString nowISO)]))
      | Some d \<Rightarrow>
          (case toISOString d of
             Inl e \<Rightarrow> Inl e
           | Inr s \<Rightarrow>
               Inr (JObject (FormData_fields fd @
                      [(''dateOfBirth'', JString (takeWhile (\<lambda>c. c \<noteq> CHR ''T'') s)),
                       (''submittedAt'', JString nowISO)]))))"

text \<open>
  The component, the key-value store and the objects that \<open>handleSubmit\<close> prints on the
  console after \<open>'Form submitted successfully:'\<close>.
\<close>

record world =
  ui :: SignupForm
  store :: storage
  console :: "json list"

text \<open>
  \<open>handleSubmit\<close>, with the two readings of the clock: \<open>currentYear\<close> in \<open>validateForm\<close>
  and \<open>nowISO\<close>, the text of \<open>new Date().toISOString()\<close>. \<open>formattedData\<close> is built before
  the \<open>try\<close> block, so its RangeError rejects the call. Nothing inside the \<open>try\<close> block
  throws. The buttons of the alert act later, when the user presses them.
\<close>

definition handleSubmit :: "platform \<Rightarrow> int \<Rightarrow> string \<Rightarrow> world \<Rightarrow> (error + unit) \<times> world" where
  "handleSubmit p currentYear nowISO w =
     (case validateForm currentYear (ui w) of
        (ok, ui1) \<Rightarrow>
          if ok then
            (case formattedData (formData (ui w)) nowISO of
               Inl e \<Rightarrow> (Inl e, w\<lparr>ui := ui1\<rparr>)
             | Inr logged \<Rightarrow>
                 (Inr (),
                  w\<lparr>ui := showToast ''Successfully registered! Data saved to storage.'' Success ui1,
                    store := saveFormDataToStorage p (formData (ui w)) (store w),
                    console := console w @ [logged]\<rparr>))
          else (Inr (), w\<lparr>ui := showToast ''Please fix the errors in the form'' Error ui1\<rparr>))"

section \<open>ImageStorage\<close>

record CapturedImage =
  name :: string
  uri :: string
  type' :: string
  size' :: int
  width :: "int option"
  height :: "int option"
  capturedAt :: string

text \<open>
  The file system: the files with their contents and the directories. The platform gives
  \<open>FileSystem.documentDirectory\<close> and says which calls are rejected; a copy is rejected as
  well when its source does not exist. A rejected call leaves the file system as it was.
\<close>

record files =
  contents :: "string \<rightharpoonup> string"
  directories :: "string set"

record FileSystem =
  documentDirectory :: string
  getInfo_rejects :: "string \<Rightarrow> bool"
  makeDirectory_rejects :: "string \<Rightarrow> bool"
  copy_rejects :: "string \<Rightarrow> string \<Rightarrow> bool"

definition IMAGE_DIRECTORY :: "FileSystem \<Rightarrow> string" where
  "IMAGE_DIRECTORY fs = documentDirectory fs @ ''captured_images/''"

definition pathExists :: "files \<Rightarrow> string \<Rightarrow> bool" where
  "pathExists f path = (contents f path \<noteq> None \<or> path \<in> directories f)"

definition copyAsync :: "FileSystem \<Rightarrow> string \<Rightarrow> string \<Rightarrow> files \<Rightarrow> (error + unit) \<times> files" where
  "copyAsync fs src dst f =
     (case contents f src of
        None \<Rightarrow> (Inl FileSystemError, f)
      | Some data \<Rightarrow>
          if copy_rejects fs src dst then (Inl FileSystemError, f)
          else (Inr (), f\<lparr>contents := (contents f)(dst \<mapsto> data)\<rparr>))"

text \<open>\<open>ensureDirectoryExists\<close> catches every error and logs it.\<close>

definition ensureDirectoryExists :: "FileSystem \<Rightarrow> files \<Rightarrow> files" where
  "ensureDirectoryExists fs f =
     (if getInfo_rejects fs (IMAGE_DIRECTORY fs) then f
      else if \<not> pathExists f (IMAGE_DIRECTORY fs) then
        (if makeDirectory_rejects fs (IMAGE_DIRECTORY fs) then f
         else f\<lparr>directories := insert (IMAGE_DIRECTORY fs) (directories f)\<rparr>)
      else f)"

definition saveImage :: "FileSystem \<Rightarrow> string \<Rightarrow> string \<Rightarrow> files \<Rightarrow> (error + string) \<times> files" where
  "saveImage fs imageUri imageName f =
     (let f1 = ensureDirectoryExists fs f;
          newPath = IMAGE_DIRECTORY fs @ imageName
      in case copyAsync fs imageUri newPath f1 of
           (Inl e, f2) \<Rightarrow> (Inl e, f2)
         | (Inr u, f2) \<Rightarrow> (Inr newPath, f2))"

text \<open>
  \<open>images.map(async (image) => ...)\<close>: one promise for each image. All of them run, whether
  or not another one fails; the model runs them in the order of the list.
\<close>

fun saveImages_map :: "FileSystem \<Rightarrow> CapturedImage list \<Rightarrow> files \<Rightarrow> (error + CapturedImage) list \<times> files" where
  "saveImages_map fs [] f = ([], f)"
| "saveImages_map fs (img # images) f =
     (case saveImage fs (uri img) (name img) f of
        (r, f1) \<Rightarrow>
          (case saveImages_map fs images f1 of
             (rs, f2) \<Rightarrow>
               ((case r of Inl e \<Rightarrow> Inl e | Inr savedUri \<Rightarrow> Inr (img\<lparr>uri := savedUri\<rparr>)) # rs,
                f2)))"

text \<open>\<open>Promise.all\<close>: the values of all promises, or the error of one that was rejected.\<close>

fun Promise_all :: "(error + 'a) list \<Rightarrow> error + 'a list" where
  "Promise_all [] = Inr []"
| "Promise_all (Inl e # rs) = Inl e"
| "Promise_all (Inr v # rs) = (case Promise_all rs of Inl e \<Rightarrow> Inl e | Inr vs \<Rightarrow> Inr (v # vs))"

definition saveImages :: "FileSystem \<Rightarrow> CapturedImage list \<Rightarrow> files \<Rightarrow> (error + CapturedImage list) \<times> files" where
  "saveImages fs images f =
     (case saveImages_map fs images f of
        (rs, f1) \<Rightarrow>
          (case Promise_all rs of
             Inl e \<Rightarrow> (Inl e, f1)
           | Inr savedImages \<Rightarrow> (Inr savedImages, f1)))"

section \<open>The pattern of an email address, as the specification words it\<close>

text \<open>
  The specification describes the pattern as: at least one non-space, non-\<open>@\<close> character
  before \<open>@\<close>, at least one non-space, non-\<open>@\<close> character between \<open>@\<close> and the last
  \<open>.\<close>, and at least one character after the last \<open>.\<close>. \<open>spec_email_pattern\<close> follows
  these words, not the source: the text before the \<open>@\<close> and the text between the \<open>@\<close> and
  the last \<open>.\<close> are non-empty and free of white space and of \<open>@\<close>, and the text after
  the last \<open>.\<close> is non-empty.
\<close>

definition beforeAt :: "string \<Rightarrow> string" where
  "beforeAt e = takeWhile (\<lambda>c. c \<noteq> CHR ''@'') e"

definition afterAt :: "string \<Rightarrow> string" where
  "afterAt e = drop 1 (dropWhile (\<lambda>c. c \<noteq> CHR ''@'') e)"

definition beforeLastDot :: "string \<Rightarrow> string" where
  "beforeLastDot s = rev (drop 1 (dropWhile (\<lambda>c. c \<noteq> CHR ''.'') (rev s)))"

definition afterLastDot :: "string \<Rightarrow> string" where
  "afterLastDot s = rev (takeWhile (\<lambda>c. c \<noteq> CHR ''.'') (rev s))"

definition spec_email_pattern :: "string \<Rightarrow> bool" where
  "spec_email_pattern e =
     (CHR ''@'' \<in> set e \<and> CHR ''.'' \<in> set (afterAt e) \<and>
      beforeAt e \<noteq> [] \<and> list_all notSpaceAt (beforeAt e) \<and>
      beforeLastDot (afterAt e) \<noteq> [] \<and> list_all notSpaceAt (beforeLastDot (afterAt e)) \<and>
      afterLastDot (afterAt e) \<noteq> [])"

section \<open>Example inputs\<close>

text \<open>A draft that passes every rule in 2026.\<close>

definition validDraft :: FormData where
  "validDraft = \<lparr>fullName = ''Ann Lee'', email = ''ann@example.org'', password = ''GoodPass1'',
     confirmPassword = ''GoodPass1'', bio = ''I like long walks.'', country = ''ca'',
     gender = ''female'', acceptTerms = True, hobbies = [''reading'', ''music''],
     dateOfBirth = Some (ValidDate 1990 ''1990-05-17T00:00:00.000Z'')\<rparr>"

text \<open>
  A platform that rejects no call. Its \<open>JSON.parse\<close> is given on the texts the examples
  store: \<open>[]\<close>, \<open>{}\<close>, \<open>null\<close> and texts that are not JSON.
\<close>

definition examplePlatform :: platform where
  "examplePlatform =
     \<lparr>JSON_parse = (\<lambda>s. if s = ''[]'' then Some (JArray [])
                        else if s = ''{}'' then Some (JObject [])
                        else if s = ''null'' then Some JNull else None),
      getItem_rejects = (\<lambda>k. False),
      setItem_rejects = (\<lambda>k v. False),
      removeItem_rejects = (\<lambda>k. False)\<rparr>"

text \<open>The same platform with a store that rejects every write.\<close>

definition readOnlyPlatform :: platform where
  "readOnlyPlatform = examplePlatform\<lparr>setItem_rejects := (\<lambda>k v. True)\<rparr>"

text \<open>The same platform with a store that rejects every read.\<close>

definition unreadablePlatform :: platform where
  "unreadablePlatform = examplePlatform\<lparr>getItem_rejects := (\<lambda>k. True)\<rparr>"

text \<open>
  A file system that rejects no call, one that rejects every copy, and two captured
  images.
\<close>

definition exampleFileSystem :: FileSystem where
  "exampleFileSystem =
     \<lparr>documentDirectory = ''file:///data/'',
      getInfo_rejects = (\<lambda>path. False),
      makeDirectory_rejects = (\<lambda>path. False),
      copy_rejects = (\<lambda>src dst. False)\<rparr>"

definition fullFileSystem :: FileSystem where
  "fullFileSystem = exampleFileSystem\<lparr>copy_rejects := (\<lambda>src dst. True)\<rparr>"

definition imageA :: CapturedImage where
  "imageA = \<lparr>name = ''a.jpg'', uri = ''file:///cache/a.jpg'', type' = ''image/jpeg'',
     size' = 1024, width = Some 640, height = Some 480,
     capturedAt = ''2026-11-02T10:00:00.000Z''\<rparr>"

definition imageB :: CapturedImage where
  "imageB = \<lparr>name = ''b.jpg'', uri = ''file:///cache/b.jpg'', type' = ''image/jpeg'',
     size' = 2048, width = None, height = None,
     capturedAt = ''2026-11-02T10:01:00.000Z''\<rparr>"

text \<open>The cache holds the file of \<open>imageA\<close> only.\<close>

definition cacheWithA :: files where
  "cacheWithA = \<lparr>contents = [''file:///cache/a.jpg'' \<mapsto> ''JPEG-A''], directories = {}\<rparr>"

section \<open>Lemmas\<close>

subsection \<open>What the regular expressions match\<close>

lemma star_rem_self: "s \<in> set (star_rem p s)"
  by (cases s) auto

lemma star_rem_sound: "r \<in> set (star_rem p s) \<Longrightarrow> \<exists>a. s = a @ r \<and> (\<forall>c\<in>set a. p c)"
proof (induction s)
  case Nil
  then show ?case by simp
next
  case (Cons x xs)
  show ?case
  proof (cases "r = x # xs")
    case True
    then have "x # xs = [] @ r \<and> (\<forall>c\<in>set []. p c)" by simp
    then show ?thesis by blast
  next
    case False
    with Cons.prems have px: "p x" and "r \<in> set (star_rem p xs)"
      by (auto split: if_splits)
    with Cons.IH obtain a where "xs = a @ r" "\<forall>c\<in>set a. p c" by blast
    with px have "x # xs = (x # a) @ r \<and> (\<forall>c\<in>set (x # a). p c)" by simp
    then show ?thesis by blast
  qed
qed

lemma star_rem_complete: "\<forall>c\<in>set a. p c \<Longrightarrow> r \<in> set (star_rem p (a @ r))"
  by (induction a) (auto simp: star_rem_self)

lemma plus_rem_iff:
  "r \<in> set (rem (Plus p) s) \<longleftrightarrow> (\<exists>a. s = a @ r \<and> a \<noteq> [] \<and> (\<forall>c\<in>set a. p c))"
proof
  assume "r \<in> set (rem (Plus p) s)"
  then obtain c cs where s: "s = c # cs" and pc: "p c" and "r \<in> set (star_rem p cs)"
    by (cases s) (auto split: if_splits)
  then obtain a where "cs = a @ r" "\<forall>x\<in>set a. p x" using star_rem_sound by blast
  with pc s have "s = (c # a) @ r \<and> c # a \<noteq> [] \<and> (\<forall>x\<in>set (c # a). p x)" by simp
  then show "\<exists>a. s = a @ r \<and> a \<noteq> [] \<and> (\<forall>c\<in>set a. p c)" by blast
next
  assume "\<exists>a. s = a @ r \<and> a \<noteq> [] \<and> (\<forall>c\<in>set a. p c)"
  then obtain x xs where "s = (x # xs) @ r" "p x" "\<forall>c\<in>set xs. p c"
    by (metis list.exhaust list.set_intros(1) list.set_intros(2))
  then show "r \<in> set (rem (Plus p) s)" by (simp add: star_rem_complete)
qed

lemma cls_rem_iff: "r \<in> set (rem (Cls p) s) \<longleftrightarrow> (\<exists>c. s = c # r \<and> p c)"
  by (cases s) auto

lemma seq_rem_iff: "r \<in> set (rem (Seq a b) s) \<longleftrightarrow> (\<exists>m \<in> set (rem a s). r \<in> set (rem b m))"
  by auto

lemma validateEmail_iff:
  "validateEmail e \<longleftrightarrow>
     (\<exists>l x y. e = l @ ''@'' @ x @ ''.'' @ y \<and> l \<noteq> [] \<and> x \<noteq> [] \<and> y \<noteq> [] \<and>
        (\<forall>c\<in>set l. notSpaceAt c) \<and> (\<forall>c\<in>set x. notSpaceAt c) \<and> (\<forall>c\<in>set y. notSpaceAt c))"
  unfolding validateEmail_def test_anchored_def emailRegex_def
  apply (simp only: seq_rem_iff plus_rem_iff cls_rem_iff Bex_def)
  apply (rule iffI)
   apply (elim exE conjE)
   apply simp
   apply blast
  apply (elim exE conjE)
  apply simp
  apply blast
  done

text \<open>A lookahead \<open>(?=.*[q])\<close> succeeds only where a character of the class follows.\<close>

lemma lookahead_class:
  assumes "rem (Seq (Star p) (Cls q)) s \<noteq> []"
  shows "\<exists>c\<in>set s. q c"
proof -
  from assms obtain r where "r \<in> set (rem (Seq (Star p) (Cls q)) s)"
    by (meson last_in_set)
  then obtain m where "m \<in> set (star_rem p s)" and "r \<in> set (rem (Cls q) m)"
    by auto
  then obtain a c where "s = a @ m" and "m = c # r" and "q c"
    using star_rem_sound cls_rem_iff by metis
  then show ?thesis by auto
qed

lemma lookahead_found:
  assumes "\<forall>c\<in>set s. p c" and "\<exists>c\<in>set s. q c"
  shows "rem (Seq (Star p) (Cls q)) s \<noteq> []"
proof -
  from assms(2) obtain a c r where s: "s = a @ c # r" and qc: "q c"
    by (meson split_list)
  with assms(1) have "\<forall>x\<in>set a. p x" by simp
  then have "c # r \<in> set (star_rem p (a @ c # r))" by (rule star_rem_complete)
  with s have m: "c # r \<in> set (rem (Star p) s)" by simp
  from qc have "r \<in> set (rem (Cls q) (c # r))" by simp
  with m have "r \<in> set (rem (Seq (Star p) (Cls q)) s)"
    unfolding seq_rem_iff by blast
  then show ?thesis by (metis empty_iff list.set(1))
qed

lemma ahead_then: "rem (Seq (Ahead a) b) s = (if rem a s = [] then [] else rem b s)"
  by simp

lemma ahead_last: "rem (Ahead a) s \<noteq> [] \<longleftrightarrow> rem a s \<noteq> []"
  by simp

lemma three_lookaheads:
  "rem (Seq (Ahead a) (Seq (Ahead b) (Ahead c))) s \<noteq> [] \<longleftrightarrow>
     rem a s \<noteq> [] \<and> rem b s \<noteq> [] \<and> rem c s \<noteq> []"
  by (simp only: ahead_then ahead_last split: if_split) blast

lemma passwordRegex_rem:
  "rem passwordRegex s \<noteq> [] \<longleftrightarrow>
     rem (Seq (Star notLineTerminator) (Cls isLower)) s \<noteq> [] \<and>
     rem (Seq (Star notLineTerminator) (Cls isUpper)) s \<noteq> [] \<and>
     rem (Seq (Star notLineTerminator) (Cls isDigit)) s \<noteq> []"
  unfolding passwordRegex_def by (rule three_lookaheads)

lemma test_passwordRegex_classes:
  "test passwordRegex s \<Longrightarrow>
     (\<exists>c\<in>set s. isLower c) \<and> (\<exists>c\<in>set s. isUpper c) \<and> (\<exists>c\<in>set s. isDigit c)"
proof (induction s)
  case Nil
  then show ?case by (simp add: passwordRegex_def)
next
  case (Cons x xs)
  from Cons.prems have "rem passwordRegex (x # xs) \<noteq> [] \<or> test passwordRegex xs" by simp
  then show ?case
  proof
    assume "rem passwordRegex (x # xs) \<noteq> []"
    then show ?thesis
      unfolding passwordRegex_rem using lookahead_class by blast
  next
    assume "test passwordRegex xs"
    with Cons.IH show ?thesis by auto
  qed
qed

lemma test_passwordRegex_one_line:
  assumes "\<forall>c\<in>set s. \<not> isLineTerminator c"
    and "\<exists>c\<in>set s. isLower c" and "\<exists>c\<in>set s. isUpper c" and "\<exists>c\<in>set s. isDigit c"
  shows "test passwordRegex s"
proof -
  from assms(1) have "\<forall>c\<in>set s. notLineTerminator c" by (simp add: notLineTerminator_def)
  with assms(2-4) have "rem passwordRegex s \<noteq> []"
    unfolding passwordRegex_rem using lookahead_found by blast
  then show ?thesis by (cases s) auto
qed

subsection \<open>Each block of validateForm writes its own key only\<close>

lemma fullName_rule_other: "k \<noteq> ''fullName'' \<Longrightarrow> map_of (fullName_rule fd e) k = map_of e k"
  by (simp add: fullName_rule_def update_conv')

lemma email_rule_other: "k \<noteq> ''email'' \<Longrightarrow> map_of (email_rule fd e) k = map_of e k"
  by (simp add: email_rule_def update_conv')

lemma password_rule_other: "k \<noteq> ''password'' \<Longrightarrow> map_of (password_rule fd e) k = map_of e k"
  by (simp add: password_rule_def update_conv')

lemma confirmPassword_rule_other:
  "k \<noteq> ''confirmPassword'' \<Longrightarrow> map_of (confirmPassword_rule fd e) k = map_of e k"
  by (simp add: confirmPassword_rule_def update_conv')

lemma bio_rule_other: "k \<noteq> ''bio'' \<Longrightarrow> map_of (bio_rule fd e) k = map_of e k"
  by (simp add: bio_rule_def update_conv')

lemma country_rule_other: "k \<noteq> ''country'' \<Longrightarrow> map_of (country_rule fd e) k = map_of e k"
  by (simp add: country_rule_def update_conv')

lemma gender_rule_other: "k \<noteq> ''gender'' \<Longrightarrow> map_of (gender_rule fd e) k = map_of e k"
  by (simp add: gender_rule_def update_conv')

lemma acceptTerms_rule_other:
  "k \<noteq> ''acceptTerms'' \<Longrightarrow> map_of (acceptTerms_rule fd e) k = map_of e k"
  by (simp add: acceptTerms_rule_def update_conv')

lemma dateOfBirth_rule_other:
  "k \<noteq> ''dateOfBirth'' \<Longrightarrow> map_of (dateOfBirth_rule y fd e) k = map_of e k"
  by (simp add: dateOfBirth_rule_def update_conv' split: option.splits)

lemmas rule_other = fullName_rule_other email_rule_other password_rule_other
  confirmPassword_rule_other bio_rule_other country_rule_other gender_rule_other
  acceptTerms_rule_other dateOfBirth_rule_other

lemma newErrors_email:
  "map_of (newErrors y fd) ''email'' =
     (if trim (email fd) = [] then Some ''Email is required''
      else if \<not> validateEmail (email fd) then Some ''Please enter a valid email address''
      else None)"
proof -
  have "map_of (newErrors y fd) ''email'' = map_of (email_rule fd (fullName_rule fd [])) ''email''"
    by (simp add: newErrors_def rule_other)
  also have "\<dots> = (if trim (email fd) = [] then Some ''Email is required''
      else if \<not> validateEmail (email fd) then Some ''Please enter a valid email address''
      else None)"
    by (simp add: email_rule_def update_conv' rule_other)
  finally show ?thesis .
qed

lemma newErrors_password:
  "map_of (newErrors y fd) ''password'' =
     (if password fd = [] then Some ''Password is required''
      else if length (password fd) < 8 then Some ''Password must be at least 8 characters''
      else if \<not> test passwordRegex (password fd)
        then Some ''Password must contain at least one uppercase letter, one lowercase letter, and one number''
      else None)"
proof -
  have "map_of (newErrors y fd) ''password'' =
      map_of (password_rule fd (email_rule fd (fullName_rule fd []))) ''password''"
    by (simp add: newErrors_def rule_other)
  also have "\<dots> = (if password fd = [] then Some ''Password is required''
      else if length (password fd) < 8 then Some ''Password must be at least 8 characters''
      else if \<not> test passwordRegex (password fd)
        then Some ''Password must contain at least one uppercase letter, one lowercase letter, and one number''
      else None)"
    by (simp add: password_rule_def update_conv' rule_other)
  finally show ?thesis .
qed

lemma newErrors_dateOfBirth:
  "map_of (newErrors y fd) ''dateOfBirth'' =
     (case dateOfBirth fd of
        None \<Rightarrow> Some ''Date of birth is required''
      | Some d \<Rightarrow>
          (case getFullYear d of
             None \<Rightarrow> None
           | Some b \<Rightarrow> if y - b < 13 then Some ''You must be at least 13 years old'' else None))"
proof -
  have "map_of (acceptTerms_rule fd
         (gender_rule fd (country_rule fd (bio_rule fd (confirmPassword_rule fd
           (password_rule fd (email_rule fd (fullName_rule fd [])))))))) ''dateOfBirth'' = None"
    by (simp add: rule_other)
  then show ?thesis
    by (simp add: newErrors_def dateOfBirth_rule_def update_conv' split: option.splits)
qed

subsection \<open>Trimming and the examples of the specification\<close>

lemma trim_empty_iff: "trim s = [] \<longleftrightarrow> (\<forall>c\<in>set s. isWhiteSpace c)"
proof -
  have "trim s = [] \<longleftrightarrow> (\<forall>c\<in>set (dropWhile isWhiteSpace s). isWhiteSpace c)"
    by (simp add: trim_def dropWhile_eq_Nil_conv)
  also have "\<dots> \<longleftrightarrow> dropWhile isWhiteSpace s = []"
    by (metis hd_dropWhile hd_in_set list.set(1) empty_iff)
  also have "\<dots> \<longleftrightarrow> (\<forall>c\<in>set s. isWhiteSpace c)"
    by (simp add: dropWhile_eq_Nil_conv)
  finally show ?thesis .
qed

lemma validateEmail_trim: "validateEmail e \<Longrightarrow> trim e \<noteq> []"
proof -
  assume "validateEmail e"
  then obtain l r where "e = l @ r" "l \<noteq> []" "\<forall>c\<in>set l. notSpaceAt c"
    unfolding validateEmail_iff by blast
  then have "hd l \<in> set e" "\<not> isWhiteSpace (hd l)"
    by (auto simp: notSpaceAt_def)
  then show ?thesis unfolding trim_empty_iff by blast
qed

lemma email_examples:
  "validateEmail ''a@b.co''" "\<not> validateEmail ''no-at-sign''" "\<not> validateEmail ''a@b''"
  "trim ''a@b.co'' \<noteq> []" "trim ''no-at-sign'' \<noteq> []" "trim ''a@b'' \<noteq> []"
  by code_simp+

lemma password_examples:
  "\<not> test passwordRegex ''alllowercase1''" "test passwordRegex ''GoodPass1''"
  by code_simp+

subsection \<open>Editing\<close>

lemma assign_frame:
  assumes "assign f v fd = Some fd'"
  shows "(f \<noteq> ''fullName'' \<longrightarrow> fullName fd' = fullName fd) \<and>
         (f \<noteq> ''email'' \<longrightarrow> email fd' = email fd) \<and>
         (f \<noteq> ''password'' \<longrightarrow> password fd' = password fd) \<and>
         (f \<noteq> ''confirmPassword'' \<longrightarrow> confirmPassword fd' = confirmPassword fd) \<and>
         (f \<noteq> ''bio'' \<longrightarrow> bio fd' = bio fd) \<and>
         (f \<noteq> ''country'' \<longrightarrow> country fd' = country fd) \<and>
         (f \<noteq> ''gender'' \<longrightarrow> gender fd' = gender fd) \<and>
         (f \<noteq> ''acceptTerms'' \<longrightarrow> acceptTerms fd' = acceptTerms fd) \<and>
         (f \<noteq> ''hobbies'' \<longrightarrow> hobbies fd' = hobbies fd) \<and>
         (f \<noteq> ''dateOfBirth'' \<longrightarrow> dateOfBirth fd' = dateOfBirth fd)"
proof (cases v)
  case (VString s)
  with assms show ?thesis by (auto split: if_splits)
next
  case (VBool b)
  with assms show ?thesis by (auto split: if_splits)
next
  case (VStrings xs)
  with assms show ?thesis by (auto split: if_splits)
next
  case (VDate d)
  with assms show ?thesis by (auto split: if_splits)
qed

lemma handleInputChange_Some:
  assumes "handleInputChange f v st = Some st'"
  shows "\<exists>fd'. assign f v (formData st) = Some fd' \<and> formData st' = fd' \<and>
           toast st' = toast st \<and>
           errors st' = (if truthy (map_of (errors st) f) then AList.update f [] (errors st)
                         else errors st)"
  using assms by (auto simp: handleInputChange_def split: option.splits)

subsection \<open>Committing a submission\<close>

lemma appendSubmission_draft:
  "snd (appendSubmission p data st) FORM_DATA_KEY = st FORM_DATA_KEY"
  by (simp add: appendSubmission_def setItem_def FORM_DATA_KEY_def SUBMITTED_FORMS_KEY_def
      split: sum.splits)

lemma appendSubmission_error:
  "isl (fst (appendSubmission p data st)) \<Longrightarrow> snd (appendSubmission p data st) = st"
  by (auto simp: appendSubmission_def setItem_def split: sum.splits if_splits)

lemma clearFormData_error:
  "isl (fst (clearFormData p st)) \<Longrightarrow> snd (clearFormData p st) = st"
  by (auto simp: clearFormData_def removeItem_def split: if_splits)

lemma saveCompletedRegistration_appends:
  assumes "getSubmittedForms p st = Inr (JArray xs)"
    and "\<not> setItem_rejects p SUBMITTED_FORMS_KEY (JSON_stringify (JArray (xs @ [data])))"
    and "\<not> removeItem_rejects p FORM_DATA_KEY"
  shows "saveCompletedRegistration p data st =
     (Inr (), st(SUBMITTED_FORMS_KEY \<mapsto> JSON_stringify (JArray (xs @ [data])),
                 FORM_DATA_KEY := None))"
  using assms
  by (simp add: saveCompletedRegistration_def appendSubmission_def setItem_def
      clearFormData_def removeItem_def)

subsection \<open>Saving images\<close>

lemma Promise_all_rejected: "\<exists>r\<in>set rs. isl r \<Longrightarrow> isl (Promise_all rs)"
proof (induction rs)
  case Nil
  then show ?case by simp
next
  case (Cons r rs)
  show ?case
  proof (cases r)
    case (Inl e)
    then show ?thesis by simp
  next
    case (Inr v)
    with Cons.prems have "\<exists>r\<in>set rs. isl r" by auto
    with Cons.IH have "isl (Promise_all rs)" by simp
    with Inr show ?thesis by (cases "Promise_all rs") simp_all
  qed
qed

lemma Promise_all_fulfilled: "Promise_all rs = Inr vs \<Longrightarrow> rs = map Inr vs"
proof (induction rs arbitrary: vs)
  case Nil
  then show ?case by simp
next
  case (Cons r rs)
  then show ?case
    by (cases r; cases "Promise_all rs") auto
qed

lemma saveImage_path:
  "fst (saveImage fs u n f) = Inr path \<Longrightarrow> path = IMAGE_DIRECTORY fs @ n"
  by (auto simp: saveImage_def Let_def split: prod.splits sum.splits)

lemma saveImages_map_length: "length (fst (saveImages_map fs images f)) = length images"
proof (induction images arbitrary: f)
  case Nil
  then show ?case by simp
next
  case (Cons img images)
  obtain r f1 where r: "saveImage fs (uri img) (name img) f = (r, f1)"
    by (cases "saveImage fs (uri img) (name img) f")
  obtain rs f2 where rs: "saveImages_map fs images f1 = (rs, f2)"
    by (cases "saveImages_map fs images f1")
  from Cons.IH [of f1] rs have "length rs = length images" by simp
  with r rs show ?case by simp
qed

lemma saveImages_map_fulfilled:
  "fst (saveImages_map fs images f) = map Inr saved \<Longrightarrow>
     saved = map (\<lambda>img. img\<lparr>uri := IMAGE_DIRECTORY fs @ name img\<rparr>) images"
proof (induction images arbitrary: f saved)
  case Nil
  then show ?case by simp
next
  case (Cons img images)
  obtain r f1 where r: "saveImage fs (uri img) (name img) f = (r, f1)"
    by (cases "saveImage fs (uri img) (name img) f")
  obtain rs f2 where rs: "saveImages_map fs images f1 = (rs, f2)"
    by (cases "saveImages_map fs images f1")
  from Cons.prems r rs obtain v vs where saved: "saved = v # vs"
    and v: "(case r of Inl e \<Rightarrow> Inl e | Inr savedUri \<Rightarrow> Inr (img\<lparr>uri := savedUri\<rparr>)) = Inr v"
    and vs: "rs = map Inr vs"
    by (cases saved) auto
  from v obtain savedUri where "r = Inr savedUri" "v = img\<lparr>uri := savedUri\<rparr>"
    by (cases r) auto
  with r have "v = img\<lparr>uri := IMAGE_DIRECTORY fs @ name img\<rparr>"
    using saveImage_path [of fs "uri img" "name img" f savedUri] by simp
  moreover from rs vs have "vs = map (\<lambda>img. img\<lparr>uri := IMAGE_DIRECTORY fs @ name img\<rparr>) images"
    using Cons.IH [of f1 vs] by simp
  ultimately show ?case using saved by simp
qed

lemma saveImage_rejected:
  "copy_rejects fs u (IMAGE_DIRECTORY fs @ n) \<Longrightarrow> isl (fst (saveImage fs u n f))"
  by (simp add: saveImage_def copyAsync_def Let_def split: option.splits)

lemma saveImages_map_rejected:
  assumes "\<exists>img\<in>set images. copy_rejects fs (uri img) (IMAGE_DIRECTORY fs @ name img)"
  shows "\<exists>r\<in>set (fst (saveImages_map fs images f)). isl r"
  using assms
proof (induction images arbitrary: f)
  case Nil
  then show ?case by simp
next
  case (Cons img images)
  obtain r f1 where r: "saveImage fs (uri img) (name img) f = (r, f1)"
    by (cases "saveImage fs (uri img) (name img) f")
  obtain rs f2 where rs: "saveImages_map fs images f1 = (rs, f2)"
    by (cases "saveImages_map fs images f1")
  show ?case
  proof (cases "copy_rejects fs (uri img) (IMAGE_DIRECTORY fs @ name img)")
    case True
    with r have "isl r" using saveImage_rejected [of fs "uri img" "name img" f] by simp
    then have "isl (case r of Inl e \<Rightarrow> Inl e | Inr savedUri \<Rightarrow> Inr (img\<lparr>uri := savedUri\<rparr>))"
      by (cases r) simp_all
    with r rs show ?thesis by simp
  next
    case False
    with Cons.prems have "\<exists>img\<in>set images. copy_rejects fs (uri img) (IMAGE_DIRECTORY fs @ name img)"
      by auto
    with Cons.IH [of f1] rs have "\<exists>r\<in>set rs. isl r" by simp
    with r rs show ?thesis by auto
  qed
qed

section \<open>The claims\<close>

subsection \<open>C1: submitting a valid draft\<close>

text \<open>
  Claim C1, as the code has it. For every draft on which validation returns an empty
  error mapping and whose date of birth is a valid date, \<open>handleSubmit\<close> formats the draft
  into a submitted record (\<open>dateOfBirth\<close> as the text before the \<open>T\<close> of its ISO
  timestamp, \<open>submittedAt\<close> the ISO timestamp of the clock) and prints it on the console;
  it writes the draft itself, with \<open>dateOfBirth\<close> as the full ISO timestamp, under the
  draft key (the store stays as it was when the write is rejected); the list of submitted
  forms is not touched, the draft is not cleared, neither in the store nor in memory, and
  the toast reports success.
\<close>

theorem handleSubmit_saves_draft:
  assumes "newErrors currentYear (formData (ui w)) = []"
    and "dateOfBirth (formData (ui w)) = Some (ValidDate b s)"
  shows "fst (handleSubmit p currentYear nowISO w) = Inr () \<and>
     console (snd (handleSubmit p currentYear nowISO w)) = console w @
       [JObject (FormData_fields (formData (ui w)) @
          [(''dateOfBirth'', JString (takeWhile (\<lambda>c. c \<noteq> CHR ''T'') s)),
           (''submittedAt'', JString nowISO)])] \<and>
     store (snd (handleSubmit p currentYear nowISO w)) =
       (if setItem_rejects p FORM_DATA_KEY
             (JSON_stringify (JObject (FormData_fields (formData (ui w)) @
                [(''dateOfBirth'', JString s)])))
        then store w
        else (store w)(FORM_DATA_KEY \<mapsto>
             JSON_stringify (JObject (FormData_fields (formData (ui w)) @
                [(''dateOfBirth'', JString s)])))) \<and>
     store (snd (handleSubmit p currentYear nowISO w)) SUBMITTED_FORMS_KEY =
       store w SUBMITTED_FORMS_KEY \<and>
     formData (ui (snd (handleSubmit p currentYear nowISO w))) = formData (ui w) \<and>
     errors (ui (snd (handleSubmit p currentYear nowISO w))) = [] \<and>
     toast (ui (snd (handleSubmit p currentYear nowISO w))) =
       \<lparr>visible = True, message = ''Successfully registered! Data saved to storage.'',
        type = Success\<rparr>"
  using assms
  by (simp add: handleSubmit_def validateForm_def Let_def formattedData_def
      saveFormDataToStorage_def storageData_def setItem_def
      FORM_DATA_KEY_def SUBMITTED_FORMS_KEY_def showToast_def)

text \<open>
  The draft \<open>validDraft\<close> submitted in 2026 on an empty store.
\<close>

theorem handleSubmit_saves_draft_witness:
  "newErrors 2026 validDraft = [] \<and>
   dateOfBirth validDraft = Some (ValidDate 1990 ''1990-05-17T00:00:00.000Z'') \<and>
   console (snd (handleSubmit examplePlatform 2026 ''2026-11-02T10:00:00.000Z''
     \<lparr>ui = \<lparr>formData = validDraft, errors = [],
             toast = \<lparr>visible = False, message = [], type = Success\<rparr>\<rparr>,
      store = Map.empty, console = []\<rparr>)) =
     [JObject (FormData_fields validDraft @
        [(''dateOfBirth'', JString ''1990-05-17''),
         (''submittedAt'', JString ''2026-11-02T10:00:00.000Z'')])] \<and>
   store (snd (handleSubmit examplePlatform 2026 ''2026-11-02T10:00:00.000Z''
     \<lparr>ui = \<lparr>formData = validDraft, errors = [],
             toast = \<lparr>visible = False, message = [], type = Success\<rparr>\<rparr>,
      store = Map.empty, console = []\<rparr>)) SUBMITTED_FORMS_KEY = None"
proof -
  have v: "newErrors 2026 validDraft = []" by code_simp
  have d: "dateOfBirth validDraft = Some (ValidDate 1990 ''1990-05-17T00:00:00.000Z'')"
    by (simp add: validDraft_def)
  from handleSubmit_saves_draft
    [of 2026 "\<lparr>ui = \<lparr>formData = validDraft, errors = [],
             toast = \<lparr>visible = False, message = [], type = Success\<rparr>\<rparr>,
      store = Map.empty, console = []\<rparr>" 1990 "''1990-05-17T00:00:00.000Z''"
      examplePlatform "''2026-11-02T10:00:00.000Z''"] v d
  show ?thesis by (simp add: FORM_DATA_KEY_def SUBMITTED_FORMS_KEY_def)
qed

text \<open>
  Claim C1 as it is stated fails: \<open>validDraft\<close> passes validation, and after
  \<open>handleSubmit\<close> on an empty store the list of submitted forms is still missing and the
  draft key holds a draft.
\<close>

theorem handleSubmit_no_append_counterexample:
  "newErrors 2026 validDraft = [] \<and>
   store (snd (handleSubmit examplePlatform 2026 ''2026-11-02T10:00:00.000Z''
     \<lparr>ui = \<lparr>formData = validDraft, errors = [],
             toast = \<lparr>visible = False, message = [], type = Success\<rparr>\<rparr>,
      store = Map.empty, console = []\<rparr>)) SUBMITTED_FORMS_KEY = None \<and>
   store (snd (handleSubmit examplePlatform 2026 ''2026-11-02T10:00:00.000Z''
     \<lparr>ui = \<lparr>formData = validDraft, errors = [],
             toast = \<lparr>visible = False, message = [], type = Success\<rparr>\<rparr>,
      store = Map.empty, console = []\<rparr>)) FORM_DATA_KEY \<noteq> None"
proof -
  have v: "newErrors 2026 validDraft = []" by code_simp
  then show ?thesis
    by (simp add: handleSubmit_def validateForm_def Let_def formattedData_def
        saveFormDataToStorage_def storageData_def setItem_def validDraft_def
        examplePlatform_def FORM_DATA_KEY_def SUBMITTED_FORMS_KEY_def showToast_def)
qed

subsection \<open>C2: a failed append keeps the draft\<close>

text \<open>
  Claim C2. When the first part of \<open>saveCompletedRegistration\<close> (read the list, append,
  write the list) fails, \<open>saveCompletedRegistration\<close> fails and the text under the draft
  key is the one from before the call. More generally, whenever
  \<open>saveCompletedRegistration\<close> fails, the text under the draft key is the one from before
  the call.
\<close>

theorem saveCompletedRegistration_keeps_draft:
  "(isl (fst (appendSubmission p data st)) \<longrightarrow>
      isl (fst (saveCompletedRegistration p data st)) \<and>
      snd (saveCompletedRegistration p data st) FORM_DATA_KEY = st FORM_DATA_KEY) \<and>
   (isl (fst (saveCompletedRegistration p data st)) \<longrightarrow>
      snd (saveCompletedRegistration p data st) FORM_DATA_KEY = st FORM_DATA_KEY)"
proof -
  obtain r st1 where a: "appendSubmission p data st = (r, st1)" by (cases "appendSubmission p data st")
  show ?thesis
  proof (cases r)
    case (Inl e)
    with a have "saveCompletedRegistration p data st = (Inl e, st1)"
      by (simp add: saveCompletedRegistration_def)
    moreover from a have "st1 FORM_DATA_KEY = st FORM_DATA_KEY"
      using appendSubmission_draft [of p data st] by simp
    ultimately show ?thesis by simp
  next
    case (Inr u)
    with a have s: "saveCompletedRegistration p data st = clearFormData p st1"
      by (simp add: saveCompletedRegistration_def)
    from a have d: "st1 FORM_DATA_KEY = st FORM_DATA_KEY"
      using appendSubmission_draft [of p data st] by simp
    from a Inr have "\<not> isl (fst (appendSubmission p data st))" by simp
    moreover have "isl (fst (clearFormData p st1)) \<longrightarrow>
        snd (clearFormData p st1) FORM_DATA_KEY = st FORM_DATA_KEY"
      using clearFormData_error [of p st1] d by auto
    ultimately show ?thesis using s by simp
  qed
qed

text \<open>
  A store that rejects every write, holding a draft and an empty list.
\<close>

theorem saveCompletedRegistration_keeps_draft_witness:
  "isl (fst (appendSubmission readOnlyPlatform (JObject [(''fullName'', JString ''Ann Lee'')])
       [FORM_DATA_KEY \<mapsto> ''{}'', SUBMITTED_FORMS_KEY \<mapsto> ''[]''])) \<and>
   isl (fst (saveCompletedRegistration readOnlyPlatform (JObject [(''fullName'', JString ''Ann Lee'')])
       [FORM_DATA_KEY \<mapsto> ''{}'', SUBMITTED_FORMS_KEY \<mapsto> ''[]''])) \<and>
   snd (saveCompletedRegistration readOnlyPlatform (JObject [(''fullName'', JString ''Ann Lee'')])
       [FORM_DATA_KEY \<mapsto> ''{}'', SUBMITTED_FORMS_KEY \<mapsto> ''[]'']) FORM_DATA_KEY = Some ''{}''"
proof -
  have h: "isl (fst (appendSubmission readOnlyPlatform (JObject [(''fullName'', JString ''Ann Lee'')])
       [FORM_DATA_KEY \<mapsto> ''{}'', SUBMITTED_FORMS_KEY \<mapsto> ''[]'']))"
    by (simp add: appendSubmission_def getSubmittedForms_def getSubmittedForms_try_def
        getItem_def parseOr_def setItem_def readOnlyPlatform_def examplePlatform_def
        FORM_DATA_KEY_def SUBMITTED_FORMS_KEY_def)
  with saveCompletedRegistration_keeps_draft
    [of readOnlyPlatform "JObject [(''fullName'', JString ''Ann Lee'')]"
      "[FORM_DATA_KEY \<mapsto> ''{}'', SUBMITTED_FORMS_KEY \<mapsto> ''[]'']"]
  show ?thesis by (simp add: FORM_DATA_KEY_def SUBMITTED_FORMS_KEY_def)
qed

subsection \<open>C3: editing a field with an error\<close>

text \<open>
  Claim C3, as the code has it. For every field name \<open>f\<close> that has an entry in the
  error mapping, \<open>handleInputChange f v\<close> yields an error mapping in which \<open>f\<close> is still
  a key and carries the empty string: the message is blanked, the key is not removed.
\<close>

theorem handleInputChange_blanks_error:
  assumes "map_of (errors st) f = Some m"
    and "handleInputChange f v st = Some st'"
  shows "map_of (errors st') f = Some [] \<and> f \<in> fst ` set (errors st')"
proof -
  from assms(2) have e: "errors st' =
      (if truthy (map_of (errors st) f) then AList.update f [] (errors st) else errors st)"
    using handleInputChange_Some by blast
  show ?thesis
  proof (cases "m = []")
    case True
    with assms(1) e have "errors st' = errors st" by (simp add: truthy_def)
    with assms(1) True show ?thesis by (simp add: map_of_SomeD image_iff) (metis fst_conv map_of_SomeD)
  next
    case False
    with assms(1) e have "errors st' = AList.update f [] (errors st)" by (simp add: truthy_def)
    then show ?thesis by (simp add: update_conv' dom_update)
  qed
qed

text \<open>
  Typing into the email field while it shows \<open>Email is required\<close>.
\<close>

theorem handleInputChange_blanks_error_witness:
  "map_of (errors (initialSignupForm\<lparr>errors := [(''email'', ''Email is required'')]\<rparr>)) ''email''
     = Some ''Email is required'' \<and>
   handleInputChange ''email'' (VString ''a'')
     (initialSignupForm\<lparr>errors := [(''email'', ''Email is required'')]\<rparr>)
     = Some (initialSignupForm\<lparr>formData := initialFormData\<lparr>email := ''a''\<rparr>,
          errors := [(''email'', [])]\<rparr>) \<and>
   map_of (errors (initialSignupForm\<lparr>formData := initialFormData\<lparr>email := ''a''\<rparr>,
          errors := [(''email'', [])]\<rparr>)) ''email'' = Some []"
proof -
  have h1: "map_of (errors (initialSignupForm\<lparr>errors := [(''email'', ''Email is required'')]\<rparr>)) ''email''
     = Some ''Email is required''"
    by simp
  have h2: "handleInputChange ''email'' (VString ''a'')
     (initialSignupForm\<lparr>errors := [(''email'', ''Email is required'')]\<rparr>)
     = Some (initialSignupForm\<lparr>formData := initialFormData\<lparr>email := ''a''\<rparr>,
          errors := [(''email'', [])]\<rparr>)"
    by (simp add: handleInputChange_def truthy_def initialSignupForm_def)
  from handleInputChange_blanks_error [OF h1 h2] h1 h2 show ?thesis by simp
qed

text \<open>
  Claim C3 as it is stated fails: after the edit the key \<open>email\<close> is present in the
  error mapping, with the empty string.
\<close>

theorem handleInputChange_keeps_key_counterexample:
  "handleInputChange ''email'' (VString ''a'')
     \<lparr>formData = initialFormData, errors = [(''email'', ''Email is required'')],
      toast = \<lparr>visible = False, message = [], type = Success\<rparr>\<rparr>
   = Some \<lparr>formData = initialFormData\<lparr>email := ''a''\<rparr>, errors = [(''email'', [])],
      toast = \<lparr>visible = False, message = [], type = Success\<rparr>\<rparr> \<and>
   map_of [(''email'', [])] ''email'' \<noteq> (None :: string option)"
  by (simp add: handleInputChange_def truthy_def)

subsection \<open>C4: validation as a function\<close>




subsection \<open>C5: the password rule\<close>

text \<open>
  Claim C5. The password rule yields \<open>Password is required\<close> for the empty password;
  otherwise the message about 8 characters when the length is below 8; and, when the length
  is at least 8, the message about the kinds of characters when the password has no
  lowercase letter, no uppercase letter or no digit. \<open>short1A\<close> gets the message about 8
  characters, \<open>alllowercase1\<close> the message about the kinds of characters and
  \<open>GoodPass1\<close> no message.
\<close>

theorem password_rule_order:
  "(password fd = [] \<longrightarrow>
      map_of (newErrors y fd) ''password'' = Some ''Password is required'') \<and>
   (password fd \<noteq> [] \<and> length (password fd) < 8 \<longrightarrow>
      map_of (newErrors y fd) ''password'' = Some ''Password must be at least 8 characters'') \<and>
   (8 \<le> length (password fd) \<and>
    (\<not> list_ex isLower (password fd) \<or> \<not> list_ex isUpper (password fd) \<or>
     \<not> list_ex isDigit (password fd)) \<longrightarrow>
      map_of (newErrors y fd) ''password'' =
        Some ''Password must contain at least one uppercase letter, one lowercase letter, and one number'') \<and>
   map_of (newErrors y (fd\<lparr>password := ''short1A''\<rparr>)) ''password'' =
     Some ''Password must be at least 8 characters'' \<and>
   map_of (newErrors y (fd\<lparr>password := ''alllowercase1''\<rparr>)) ''password'' =
     Some ''Password must contain at least one uppercase letter, one lowercase letter, and one number'' \<and>
   map_of (newErrors y (fd\<lparr>password := ''GoodPass1''\<rparr>)) ''password'' = None"
proof (intro conjI impI)
  assume "password fd = []"
  then show "map_of (newErrors y fd) ''password'' = Some ''Password is required''"
    by (simp add: newErrors_password)
next
  assume "password fd \<noteq> [] \<and> length (password fd) < 8"
  then show "map_of (newErrors y fd) ''password'' = Some ''Password must be at least 8 characters''"
    by (simp add: newErrors_password)
next
  assume a: "8 \<le> length (password fd) \<and>
    (\<not> list_ex isLower (password fd) \<or> \<not> list_ex isUpper (password fd) \<or>
     \<not> list_ex isDigit (password fd))"
  then have "\<not> test passwordRegex (password fd)"
    using test_passwordRegex_classes [of "password fd"] by (auto simp: list_ex_iff)
  moreover from a have "password fd \<noteq> []" "\<not> length (password fd) < 8" by auto
  ultimately show "map_of (newErrors y fd) ''password'' =
        Some ''Password must contain at least one uppercase letter, one lowercase letter, and one number''"
    by (simp add: newErrors_password)
next
  show "map_of (newErrors y (fd\<lparr>password := ''short1A''\<rparr>)) ''password'' =
     Some ''Password must be at least 8 characters''"
    by (simp add: newErrors_password)
next
  show "map_of (newErrors y (fd\<lparr>password := ''alllowercase1''\<rparr>)) ''password'' =
     Some ''Password must contain at least one uppercase letter, one lowercase letter, and one number''"
    by (simp add: newErrors_password password_examples del: test.simps)
next
  show "map_of (newErrors y (fd\<lparr>password := ''GoodPass1''\<rparr>)) ''password'' = None"
    by (simp add: newErrors_password password_examples del: test.simps)
qed

text \<open>
  The empty password, \<open>Ab1\<close> and \<open>NOLOWERCASE1\<close>.
\<close>

theorem password_rule_order_witness:
  "password initialFormData = [] \<and>
   map_of (newErrors 2026 initialFormData) ''password'' = Some ''Password is required'' \<and>
   password (initialFormData\<lparr>password := ''Ab1''\<rparr>) \<noteq> [] \<and>
   length (password (initialFormData\<lparr>password := ''Ab1''\<rparr>)) < 8 \<and>
   map_of (newErrors 2026 (initialFormData\<lparr>password := ''Ab1''\<rparr>)) ''password'' =
     Some ''Password must be at least 8 characters'' \<and>
   8 \<le> length (password (initialFormData\<lparr>password := ''NOLOWERCASE1''\<rparr>)) \<and>
   \<not> list_ex isLower (password (initialFormData\<lparr>password := ''NOLOWERCASE1''\<rparr>)) \<and>
   map_of (newErrors 2026 (initialFormData\<lparr>password := ''NOLOWERCASE1''\<rparr>)) ''password'' =
     Some ''Password must contain at least one uppercase letter, one lowercase letter, and one number''"
  using password_rule_order [of initialFormData 2026]
    password_rule_order [of "initialFormData\<lparr>password := ''Ab1''\<rparr>" 2026]
    password_rule_order [of "initialFormData\<lparr>password := ''NOLOWERCASE1''\<rparr>" 2026]
  by (simp add: initialFormData_def isLower_def)

subsection \<open>C6: the email rule\<close>

text \<open>
  Claim C6, as the code has it. The email rule yields \<open>Email is required\<close> for the
  empty email; a non-empty email gets a message exactly when it is not of the form
  \<open>l@x.z\<close> with \<open>l\<close>, \<open>x\<close> and \<open>z\<close> non-empty and free of white space and of \<open>@\<close>.
  The \<open>.\<close> need not be the last one of the email: \<open>x\<close> and \<open>z\<close> may contain \<open>.\<close>.
  \<open>a@b.co\<close> gets no message; \<open>no-at-sign\<close> and \<open>a@b\<close> get one.
\<close>

theorem email_rule_regex:
  "(email fd = [] \<longrightarrow> map_of (newErrors y fd) ''email'' = Some ''Email is required'') \<and>
   (email fd \<noteq> [] \<longrightarrow>
      (map_of (newErrors y fd) ''email'' \<noteq> None \<longleftrightarrow>
       \<not> (\<exists>l x z. email fd = l @ ''@'' @ x @ ''.'' @ z \<and> l \<noteq> [] \<and> x \<noteq> [] \<and> z \<noteq> [] \<and>
             list_all notSpaceAt l \<and> list_all notSpaceAt x \<and> list_all notSpaceAt z))) \<and>
   map_of (newErrors y (fd\<lparr>email := ''a@b.co''\<rparr>)) ''email'' = None \<and>
   map_of (newErrors y (fd\<lparr>email := ''no-at-sign''\<rparr>)) ''email'' =
     Some ''Please enter a valid email address'' \<and>
   map_of (newErrors y (fd\<lparr>email := ''a@b''\<rparr>)) ''email'' =
     Some ''Please enter a valid email address''"
proof (intro conjI impI)
  assume "email fd = []"
  then show "map_of (newErrors y fd) ''email'' = Some ''Email is required''"
    by (simp add: newErrors_email trim_def)
next
  have "map_of (newErrors y fd) ''email'' \<noteq> None \<longleftrightarrow> \<not> validateEmail (email fd)"
    using validateEmail_trim [of "email fd"] by (auto simp: newErrors_email)
  then show "map_of (newErrors y fd) ''email'' \<noteq> None \<longleftrightarrow>
       \<not> (\<exists>l x z. email fd = l @ ''@'' @ x @ ''.'' @ z \<and> l \<noteq> [] \<and> x \<noteq> [] \<and> z \<noteq> [] \<and>
             list_all notSpaceAt l \<and> list_all notSpaceAt x \<and> list_all notSpaceAt z)"
    by (simp only: validateEmail_iff list_all_iff)
next
  show "map_of (newErrors y (fd\<lparr>email := ''a@b.co''\<rparr>)) ''email'' = None"
    by (simp add: newErrors_email email_examples)
next
  show "map_of (newErrors y (fd\<lparr>email := ''no-at-sign''\<rparr>)) ''email'' =
     Some ''Please enter a valid email address''"
    by (simp add: newErrors_email email_examples)
next
  show "map_of (newErrors y (fd\<lparr>email := ''a@b''\<rparr>)) ''email'' =
     Some ''Please enter a valid email address''"
    by (simp add: newErrors_email email_examples)
qed

text \<open>
  The empty email, and \<open>a@b..\<close>, which is \<open>l@x.z\<close> with \<open>z\<close> the last \<open>.\<close>.
\<close>

theorem email_rule_regex_witness:
  "email initialFormData = [] \<and>
   map_of (newErrors 2026 initialFormData) ''email'' = Some ''Email is required'' \<and>
   email (initialFormData\<lparr>email := ''a@b..''\<rparr>) \<noteq> [] \<and>
   map_of (newErrors 2026 (initialFormData\<lparr>email := ''a@b..''\<rparr>)) ''email'' = None"
proof -
  have "''a@b..'' = ''a'' @ ''@'' @ ''b'' @ ''.'' @ ''.'' \<and> ''a'' \<noteq> [] \<and> ''b'' \<noteq> [] \<and> ''.'' \<noteq> [] \<and>
     list_all notSpaceAt ''a'' \<and> list_all notSpaceAt ''b'' \<and> list_all notSpaceAt ''.''"
    by (simp add: notSpaceAt_def isWhiteSpace_def)
  then have "\<exists>l x z. ''a@b..'' = l @ ''@'' @ x @ ''.'' @ z \<and> l \<noteq> [] \<and> x \<noteq> [] \<and> z \<noteq> [] \<and>
     list_all notSpaceAt l \<and> list_all notSpaceAt x \<and> list_all notSpaceAt z"
    by blast
  then show ?thesis
    using email_rule_regex [of initialFormData 2026]
      email_rule_regex [of "initialFormData\<lparr>email := ''a@b..''\<rparr>" 2026]
    by (simp add: initialFormData_def)
qed

text \<open>
  Claim C6 as it is stated fails: \<open>a@b..\<close> has no character after its last \<open>.\<close>, so
  it does not match the pattern as the specification words it, and it gets no message.
\<close>

theorem email_rule_last_dot_counterexample:
  "\<not> (map_of (newErrors 2026 (initialFormData\<lparr>email := ''a@b..''\<rparr>)) ''email'' \<noteq> None
        \<longleftrightarrow> \<not> spec_email_pattern ''a@b..'')"
  by code_simp

subsection \<open>C7: the date of birth rule\<close>

text \<open>
  Claim C7. For a draft with a date of birth, the rule yields the message about 13
  years exactly when the year of the clock minus the year of birth is less than 13, and no
  message otherwise; month and day play no part. An invalid date, whose year is NaN, gets
  no message. A year of birth 13 years back is accepted, one 12 years back is rejected.
\<close>

theorem dateOfBirth_rule_age:
  "(dateOfBirth fd = Some (ValidDate b s) \<longrightarrow>
      (map_of (newErrors y fd) ''dateOfBirth'' = Some ''You must be at least 13 years old''
         \<longleftrightarrow> y - b < 13) \<and>
      (map_of (newErrors y fd) ''dateOfBirth'' = None \<longleftrightarrow> \<not> y - b < 13)) \<and>
   (dateOfBirth fd = Some InvalidDate \<longrightarrow> map_of (newErrors y fd) ''dateOfBirth'' = None) \<and>
   map_of (newErrors y (fd\<lparr>dateOfBirth := Some (ValidDate (y - 13) s)\<rparr>)) ''dateOfBirth'' = None \<and>
   map_of (newErrors y (fd\<lparr>dateOfBirth := Some (ValidDate (y - 12) s)\<rparr>)) ''dateOfBirth'' =
     Some ''You must be at least 13 years old''"
  by (simp add: newErrors_dateOfBirth)

text \<open>
  In 2026, a birth in 2014 is rejected, a birth in 2013 is accepted and an invalid date
  is accepted.
\<close>

theorem dateOfBirth_rule_age_witness:
  "dateOfBirth (initialFormData\<lparr>dateOfBirth := Some (ValidDate 2014 ''2014-03-09T00:00:00.000Z'')\<rparr>)
     = Some (ValidDate 2014 ''2014-03-09T00:00:00.000Z'') \<and>
   map_of (newErrors 2026
     (initialFormData\<lparr>dateOfBirth := Some (ValidDate 2014 ''2014-03-09T00:00:00.000Z'')\<rparr>))
     ''dateOfBirth'' = Some ''You must be at least 13 years old'' \<and>
   map_of (newErrors 2026
     (initialFormData\<lparr>dateOfBirth := Some (ValidDate 2013 ''2013-03-09T00:00:00.000Z'')\<rparr>))
     ''dateOfBirth'' = None \<and>
   dateOfBirth (initialFormData\<lparr>dateOfBirth := Some InvalidDate\<rparr>) = Some InvalidDate \<and>
   map_of (newErrors 2026 (initialFormData\<lparr>dateOfBirth := Some InvalidDate\<rparr>))
     ''dateOfBirth'' = None"
  using dateOfBirth_rule_age [of "initialFormData\<lparr>dateOfBirth := Some (ValidDate 2014 ''2014-03-09T00:00:00.000Z'')\<rparr>"
      2014 "''2014-03-09T00:00:00.000Z''" 2026]
    dateOfBirth_rule_age [of "initialFormData\<lparr>dateOfBirth := Some (ValidDate 2013 ''2013-03-09T00:00:00.000Z'')\<rparr>"
      2013 "''2013-03-09T00:00:00.000Z''" 2026]
    dateOfBirth_rule_age [of "initialFormData\<lparr>dateOfBirth := Some InvalidDate\<rparr>"
      2013 "''2013-03-09T00:00:00.000Z''" 2026]
  by simp

subsection \<open>C8: reading degrades\<close>

text \<open>
  Claim C8, as the code has it. \<open>getFormData\<close> and \<open>getSubmittedForms\<close> never fail.
  \<open>getFormData\<close> returns \<open>null\<close> when the draft key is missing, when its text is empty,
  when its text does not parse and when the store rejects the read; \<open>getSubmittedForms\<close>
  returns the empty array when the list key is missing, when its text is empty, when its
  text does not parse and when the store rejects the read. A text that parses is returned
  as \<open>JSON.parse\<close> yields it, whatever its shape: a list key that holds \<open>null\<close> or an object
  yields \<open>null\<close> or that object, not the empty array.
\<close>

theorem reads_degrade:
  "\<not> isl (getFormData p st) \<and> \<not> isl (getSubmittedForms p st) \<and>
   (st FORM_DATA_KEY = None \<longrightarrow> getFormData p st = Inr JNull) \<and>
   (st FORM_DATA_KEY = Some [] \<longrightarrow> getFormData p st = Inr JNull) \<and>
   (st FORM_DATA_KEY = Some s \<and> JSON_parse p s = None \<longrightarrow> getFormData p st = Inr JNull) \<and>
   (getItem_rejects p FORM_DATA_KEY \<longrightarrow> getFormData p st = Inr JNull) \<and>
   (\<not> getItem_rejects p FORM_DATA_KEY \<and> st FORM_DATA_KEY = Some s \<and> s \<noteq> [] \<and>
    JSON_parse p s = Some v \<longrightarrow> getFormData p st = Inr v) \<and>
   (st SUBMITTED_FORMS_KEY = None \<longrightarrow> getSubmittedForms p st = Inr (JArray [])) \<and>
   (st SUBMITTED_FORMS_KEY = Some [] \<longrightarrow> getSubmittedForms p st = Inr (JArray [])) \<and>
   (st SUBMITTED_FORMS_KEY = Some s \<and> JSON_parse p s = None \<longrightarrow>
      getSubmittedForms p st = Inr (JArray [])) \<and>
   (getItem_rejects p SUBMITTED_FORMS_KEY \<longrightarrow> getSubmittedForms p st = Inr (JArray [])) \<and>
   (\<not> getItem_rejects p SUBMITTED_FORMS_KEY \<and> st SUBMITTED_FORMS_KEY = Some s \<and> s \<noteq> [] \<and>
    JSON_parse p s = Some v \<longrightarrow> getSubmittedForms p st = Inr v)"
proof -
  have draft: "getFormData p st =
      (if getItem_rejects p FORM_DATA_KEY then Inr JNull
       else case parseOr p JNull (st FORM_DATA_KEY) of Inl e \<Rightarrow> Inr JNull | Inr v \<Rightarrow> Inr v)"
    by (simp add: getFormData_def getFormData_try_def getItem_def)
  have forms: "getSubmittedForms p st =
      (if getItem_rejects p SUBMITTED_FORMS_KEY then Inr (JArray [])
       else case parseOr p (JArray []) (st SUBMITTED_FORMS_KEY) of
              Inl e \<Rightarrow> Inr (JArray []) | Inr v \<Rightarrow> Inr v)"
    by (simp add: getSubmittedForms_def getSubmittedForms_try_def getItem_def)
  show ?thesis
    unfolding draft forms
    by (simp add: parseOr_def split: sum.splits option.splits)
qed

text \<open>
  A store with a text that is not JSON under one key and nothing under the other, a
  store that rejects every read, a store with empty texts, and a store whose texts parse:
  an object under the draft key and \<open>null\<close> under the list key.
\<close>

theorem reads_degrade_witness:
  "[SUBMITTED_FORMS_KEY \<mapsto> ''<html>''] FORM_DATA_KEY = None \<and>
   getFormData examplePlatform [SUBMITTED_FORMS_KEY \<mapsto> ''<html>''] = Inr JNull \<and>
   [SUBMITTED_FORMS_KEY \<mapsto> ''<html>''] SUBMITTED_FORMS_KEY = Some ''<html>'' \<and>
   JSON_parse examplePlatform ''<html>'' = None \<and>
   getSubmittedForms examplePlatform [SUBMITTED_FORMS_KEY \<mapsto> ''<html>''] = Inr (JArray []) \<and>
   [FORM_DATA_KEY \<mapsto> ''undefined''] FORM_DATA_KEY = Some ''undefined'' \<and>
   JSON_parse examplePlatform ''undefined'' = None \<and>
   getFormData examplePlatform [FORM_DATA_KEY \<mapsto> ''undefined''] = Inr JNull \<and>
   [FORM_DATA_KEY \<mapsto> ''undefined''] SUBMITTED_FORMS_KEY = None \<and>
   getSubmittedForms examplePlatform [FORM_DATA_KEY \<mapsto> ''undefined''] = Inr (JArray []) \<and>
   getItem_rejects unreadablePlatform FORM_DATA_KEY \<and>
   getItem_rejects unreadablePlatform SUBMITTED_FORMS_KEY \<and>
   getFormData unreadablePlatform [FORM_DATA_KEY \<mapsto> ''{}''] = Inr JNull \<and>
   getSubmittedForms unreadablePlatform [FORM_DATA_KEY \<mapsto> ''{}''] = Inr (JArray []) \<and>
   [FORM_DATA_KEY \<mapsto> [], SUBMITTED_FORMS_KEY \<mapsto> []] FORM_DATA_KEY = Some [] \<and>
   [FORM_DATA_KEY \<mapsto> [], SUBMITTED_FORMS_KEY \<mapsto> []] SUBMITTED_FORMS_KEY = Some [] \<and>
   getFormData examplePlatform [FORM_DATA_KEY \<mapsto> [], SUBMITTED_FORMS_KEY \<mapsto> []] = Inr JNull \<and>
   getSubmittedForms examplePlatform [FORM_DATA_KEY \<mapsto> [], SUBMITTED_FORMS_KEY \<mapsto> []]
     = Inr (JArray []) \<and>
   \<not> getItem_rejects examplePlatform FORM_DATA_KEY \<and>
   [FORM_DATA_KEY \<mapsto> ''{}'', SUBMITTED_FORMS_KEY \<mapsto> ''{}''] FORM_DATA_KEY = Some ''{}'' \<and>
   ''{}'' \<noteq> [] \<and> JSON_parse examplePlatform ''{}'' = Some (JObject []) \<and>
   getFormData examplePlatform [FORM_DATA_KEY \<mapsto> ''{}'', SUBMITTED_FORMS_KEY \<mapsto> ''{}'']
     = Inr (JObject []) \<and>
   \<not> getItem_rejects examplePlatform SUBMITTED_FORMS_KEY \<and>
   [FORM_DATA_KEY \<mapsto> ''{}'', SUBMITTED_FORMS_KEY \<mapsto> ''{}''] SUBMITTED_FORMS_KEY = Some ''{}'' \<and>
   getSubmittedForms examplePlatform [FORM_DATA_KEY \<mapsto> ''{}'', SUBMITTED_FORMS_KEY \<mapsto> ''{}'']
     = Inr (JObject [])"
  using reads_degrade [where p = examplePlatform and st = "[SUBMITTED_FORMS_KEY \<mapsto> ''<html>'']"
      and s = "''<html>''" and v = JNull]
    reads_degrade [where p = examplePlatform and st = "[FORM_DATA_KEY \<mapsto> ''undefined'']"
      and s = "''undefined''" and v = JNull]
    reads_degrade [where p = unreadablePlatform and st = "[FORM_DATA_KEY \<mapsto> ''{}'']"
      and s = "''{}''" and v = JNull]
    reads_degrade [where p = examplePlatform
      and st = "[FORM_DATA_KEY \<mapsto> [], SUBMITTED_FORMS_KEY \<mapsto> []]"
      and s = "[]" and v = JNull]
    reads_degrade [where p = examplePlatform
      and st = "[FORM_DATA_KEY \<mapsto> ''{}'', SUBMITTED_FORMS_KEY \<mapsto> ''{}'']"
      and s = "''{}''" and v = "JObject []"]
  by (simp add: examplePlatform_def unreadablePlatform_def FORM_DATA_KEY_def
      SUBMITTED_FORMS_KEY_def)

text \<open>
  Claim C8 as it is stated fails: a list key that holds \<open>null\<close>, which is not a list of
  submitted forms, makes \<open>getSubmittedForms\<close> return \<open>null\<close> and not the empty array; the
  next \<open>saveCompletedRegistration\<close> then fails with a TypeError on \<open>[...null]\<close>.
\<close>

theorem getSubmittedForms_returns_parsed_counterexample:
  "getSubmittedForms examplePlatform [SUBMITTED_FORMS_KEY \<mapsto> ''null''] = Inr JNull \<and>
   getSubmittedForms examplePlatform [SUBMITTED_FORMS_KEY \<mapsto> ''null''] \<noteq> Inr (JArray []) \<and>
   fst (saveCompletedRegistration examplePlatform (JObject [(''fullName'', JString ''Ann Lee'')])
     [SUBMITTED_FORMS_KEY \<mapsto> ''null'']) = Inl TypeError"
  by (simp add: getSubmittedForms_def getSubmittedForms_try_def getItem_def parseOr_def
      saveCompletedRegistration_def appendSubmission_def examplePlatform_def
      SUBMITTED_FORMS_KEY_def)

subsection \<open>C9: saving images is all or nothing\<close>

text \<open>
  Claim C9. When \<open>saveImage\<close> fails for one image of the list, and in particular when
  the file system rejects the copy of one image, \<open>saveImages\<close> fails. When \<open>saveImages\<close>
  returns a list, it is the whole list of images, in order, each with its permanent
  location.
\<close>

theorem saveImages_all_or_nothing:
  "((\<exists>r\<in>set (fst (saveImages_map fs images f)). isl r) \<longrightarrow>
      isl (fst (saveImages fs images f))) \<and>
   ((\<exists>img\<in>set images. copy_rejects fs (uri img) (IMAGE_DIRECTORY fs @ name img)) \<longrightarrow>
      isl (fst (saveImages fs images f))) \<and>
   (fst (saveImages fs images f) = Inr saved \<longrightarrow>
      saved = map (\<lambda>img. img\<lparr>uri := IMAGE_DIRECTORY fs @ name img\<rparr>) images \<and>
      length saved = length images)"
proof -
  obtain rs f1 where m: "saveImages_map fs images f = (rs, f1)"
    by (cases "saveImages_map fs images f")
  then have s: "fst (saveImages fs images f) = Promise_all rs"
    by (simp add: saveImages_def split: sum.splits)
  have one: "(\<exists>r\<in>set rs. isl r) \<longrightarrow> isl (Promise_all rs)"
    using Promise_all_rejected by blast
  have "(\<exists>img\<in>set images. copy_rejects fs (uri img) (IMAGE_DIRECTORY fs @ name img)) \<longrightarrow>
      (\<exists>r\<in>set rs. isl r)"
    using saveImages_map_rejected [of images fs f] m by simp
  with one have two:
    "(\<exists>img\<in>set images. copy_rejects fs (uri img) (IMAGE_DIRECTORY fs @ name img)) \<longrightarrow>
      isl (Promise_all rs)"
    by blast
  have three: "Promise_all rs = Inr saved \<longrightarrow>
      saved = map (\<lambda>img. img\<lparr>uri := IMAGE_DIRECTORY fs @ name img\<rparr>) images"
    using Promise_all_fulfilled [of rs saved] saveImages_map_fulfilled [of fs images f saved] m
    by auto
  from one two three show ?thesis using m s by auto
qed

text \<open>
  The file of \<open>imageB\<close> is missing from the cache: the copy of \<open>imageA\<close> succeeds,
  the copy of \<open>imageB\<close> fails and \<open>saveImages\<close> fails. It fails as well on a file system
  that rejects every copy. \<open>imageA\<close> alone is saved.
\<close>

theorem saveImages_all_or_nothing_witness:
  "isl (fst (saveImages_map exampleFileSystem [imageA, imageB] cacheWithA) ! 1) \<and>
   \<not> isl (fst (saveImages_map exampleFileSystem [imageA, imageB] cacheWithA) ! 0) \<and>
   isl (fst (saveImages exampleFileSystem [imageA, imageB] cacheWithA)) \<and>
   copy_rejects fullFileSystem (uri imageA) (IMAGE_DIRECTORY fullFileSystem @ name imageA) \<and>
   isl (fst (saveImages fullFileSystem [imageA] cacheWithA)) \<and>
   fst (saveImages exampleFileSystem [imageA] cacheWithA)
     = Inr [imageA\<lparr>uri := ''file:///data/captured_images/a.jpg''\<rparr>] \<and>
   length [imageA\<lparr>uri := ''file:///data/captured_images/a.jpg''\<rparr>] = length [imageA]"
proof -
  have m: "fst (saveImages_map exampleFileSystem [imageA, imageB] cacheWithA) =
      [Inr (imageA\<lparr>uri := ''file:///data/captured_images/a.jpg''\<rparr>), Inl FileSystemError]"
    by (simp add: saveImage_def ensureDirectoryExists_def copyAsync_def pathExists_def
        IMAGE_DIRECTORY_def exampleFileSystem_def imageA_def imageB_def cacheWithA_def Let_def)
  have one: "fst (saveImages exampleFileSystem [imageA] cacheWithA)
     = Inr [imageA\<lparr>uri := ''file:///data/captured_images/a.jpg''\<rparr>]"
    by (simp add: saveImages_def saveImage_def ensureDirectoryExists_def copyAsync_def
        pathExists_def IMAGE_DIRECTORY_def exampleFileSystem_def imageA_def cacheWithA_def Let_def)
  have full: "\<exists>img\<in>set [imageA].
      copy_rejects fullFileSystem (uri img) (IMAGE_DIRECTORY fullFileSystem @ name img)"
    by (simp add: fullFileSystem_def)
  from m have "\<exists>r\<in>set (fst (saveImages_map exampleFileSystem [imageA, imageB] cacheWithA)). isl r"
    by simp
  with saveImages_all_or_nothing [of exampleFileSystem "[imageA, imageB]" cacheWithA]
  have two: "isl (fst (saveImages exampleFileSystem [imageA, imageB] cacheWithA))" by blast
  from full saveImages_all_or_nothing [of fullFileSystem "[imageA]" cacheWithA]
  have three: "isl (fst (saveImages fullFileSystem [imageA] cacheWithA))" by blast
  from one saveImages_all_or_nothing [of exampleFileSystem "[imageA]" cacheWithA
      "[imageA\<lparr>uri := ''file:///data/captured_images/a.jpg''\<rparr>]"]
  have four: "length [imageA\<lparr>uri := ''file:///data/captured_images/a.jpg''\<rparr>] = length [imageA]"
    by blast
  from m one two three four full show ?thesis by simp
qed

subsection \<open>C10: editing changes one field\<close>

text \<open>
  Claim C10. \<open>handleInputChange f v\<close> changes the field \<open>f\<close> of the draft only: every
  other field keeps its value, and the entry of the error mapping for every other field
  name is the one from before.
\<close>

theorem handleInputChange_frame:
  assumes "handleInputChange f v st = Some st'"
  shows "(f \<noteq> ''fullName'' \<longrightarrow> fullName (formData st') = fullName (formData st)) \<and>
         (f \<noteq> ''email'' \<longrightarrow> email (formData st') = email (formData st)) \<and>
         (f \<noteq> ''password'' \<longrightarrow> password (formData st') = password (formData st)) \<and>
         (f \<noteq> ''confirmPassword'' \<longrightarrow>
            confirmPassword (formData st') = confirmPassword (formData st)) \<and>
         (f \<noteq> ''bio'' \<longrightarrow> bio (formData st') = bio (formData st)) \<and>
         (f \<noteq> ''country'' \<longrightarrow> country (formData st') = country (formData st)) \<and>
         (f \<noteq> ''gender'' \<longrightarrow> gender (formData st') = gender (formData st)) \<and>
         (f \<noteq> ''acceptTerms'' \<longrightarrow> acceptTerms (formData st') = acceptTerms (formData st)) \<and>
         (f \<noteq> ''hobbies'' \<longrightarrow> hobbies (formData st') = hobbies (formData st)) \<and>
         (f \<noteq> ''dateOfBirth'' \<longrightarrow> dateOfBirth (formData st') = dateOfBirth (formData st)) \<and>
         (\<forall>g. g \<noteq> f \<longrightarrow> map_of (errors st') g = map_of (errors st) g)"
proof -
  from assms obtain fd' where a: "assign f v (formData st) = Some fd'" "formData st' = fd'"
    and e: "errors st' =
      (if truthy (map_of (errors st) f) then AList.update f [] (errors st) else errors st)"
    using handleInputChange_Some by blast
  from e have "\<forall>g. g \<noteq> f \<longrightarrow> map_of (errors st') g = map_of (errors st) g"
    by (simp add: update_conv')
  with assign_frame [OF a(1)] a(2) show ?thesis by simp
qed

text \<open>
  Editing the bio of \<open>validDraft\<close> while the bio and the email show a message.
\<close>

theorem handleInputChange_frame_witness:
  "handleInputChange ''bio'' (VString ''Hello there, world'')
     \<lparr>formData = validDraft,
      errors = [(''bio'', ''Bio is required''), (''email'', ''Email is required'')],
      toast = \<lparr>visible = False, message = [], type = Success\<rparr>\<rparr>
   = Some \<lparr>formData = validDraft\<lparr>bio := ''Hello there, world''\<rparr>,
      errors = [(''bio'', []), (''email'', ''Email is required'')],
      toast = \<lparr>visible = False, message = [], type = Success\<rparr>\<rparr> \<and>
   email (validDraft\<lparr>bio := ''Hello there, world''\<rparr>) = email validDraft \<and>
   map_of [(''bio'', []), (''email'', ''Email is required'')] ''email''
     = map_of [(''bio'', ''Bio is required''), (''email'', ''Email is required'')] ''email''"
proof -
  have h: "handleInputChange ''bio'' (VString ''Hello there, world'')
     \<lparr>formData = validDraft,
      errors = [(''bio'', ''Bio is required''), (''email'', ''Email is required'')],
      toast = \<lparr>visible = False, message = [], type = Success\<rparr>\<rparr>
   = Some \<lparr>formData = validDraft\<lparr>bio := ''Hello there, world''\<rparr>,
      errors = [(''bio'', []), (''email'', ''Email is required'')],
      toast = \<lparr>visible = False, message = [], type = Success\<rparr>\<rparr>"
    by (simp add: handleInputChange_def truthy_def)
  from handleInputChange_frame [OF h] h show ?thesis by simp
qed

end
